theory Spec2Isabelle
  imports Main
begin

section \<open>The entity association service of the metadata repository\<close>

text \<open>
  A shallow embedding of \<^verbatim>\<open>components/lif/mdr_services/entity_association_service.py\<close>.
  The database session is an explicit state: one list of rows per table, in the order in
  which a query without ORDER BY returns them. Every operation that writes takes the
  database and returns its outcome together with the database it leaves behind; an
  \<^verbatim>\<open>HTTPException\<close> or an exception of the result API is a value of type \<open>error\<close>.
\<close>

subsection \<open>Tables\<close>

text \<open>
  Modelled from the spec: the table declarations (\<^verbatim>\<open>lif.datatypes.mdr_sql_model\<close>) are not
  part of the sources. The columns are the ones the service reads and writes. Integer ids
  are Python integers; \<^verbatim>\<open>Id\<close> is the primary key of its table; \<^verbatim>\<open>Deleted\<close> is a
  boolean flag that is false on a new row; a nullable column is an \<open>option\<close>.
\<close>

datatype DataModelType = BaseLIF | OrgLIF | SourceSchema | PartnerLIF

record Entity =
  Entity_Id :: int
  Entity_DataModelId :: int
  Entity_Extension :: bool
  Entity_Deleted :: bool

record DataModel =
  DataModel_Id :: int
  DataModel_Type :: DataModelType
  DataModel_Deleted :: bool

record ExtInclusionsFromBaseDM =
  ExtDataModelId :: int
  ElementType :: string
  IncludedElementId :: int
  Inclusion_Deleted :: bool

record EntityAssociation =
  Assoc_Id :: int
  ParentEntityId :: int
  ChildEntityId :: int
  Relationship :: "string option"
  Placement :: "string option"
  Notes :: "string option"
  CreationDate :: "string option"
  ActivationDate :: "string option"
  DeprecationDate :: "string option"
  Contributor :: "string option"
  ContributorOrganization :: "string option"
  Extension :: bool
  ExtendedByDataModelId :: "int option"
  Deleted :: bool

text \<open>
  The session: the four tables, the next value of the sequence that numbers the rows of
  the association table, and the ranking by which the database engine orders the rows of
  a \<^verbatim>\<open>UNION\<close>. A \<^verbatim>\<open>UNION\<close> without ORDER BY returns its rows in an order that the engine
  chooses, so that order is not derived from the tables: it is a parameter of the
  session, and any order of distinct rows is the order of some ranking.
\<close>

record session =
  Entities :: "Entity list"
  DataModels :: "DataModel list"
  ExtInclusions :: "ExtInclusionsFromBaseDM list"
  EntityAssociations :: "EntityAssociation list"
  next_Id :: int
  union_rank :: "EntityAssociation \<Rightarrow> int"

subsection \<open>Data transfer objects\<close>

text \<open>
  Modelled from the spec: the DTO classes (\<^verbatim>\<open>lif.mdr_dto.entity_association_dto\<close>) are not
  part of the sources. The creation DTO carries the fields that
  \<^verbatim>\<open>create_entity_association\<close> reads. The result DTO carries the columns of the row, so
  \<^verbatim>\<open>EntityAssociationDTO.from_orm\<close> is the identity on the record.
\<close>

record CreateEntityAssociationDTO =
  new_ParentEntityId :: int
  new_ChildEntityId :: int
  new_Relationship :: "string option"
  new_Placement :: "string option"
  new_Notes :: "string option"
  new_CreationDate :: "string option"
  new_ActivationDate :: "string option"
  new_DeprecationDate :: "string option"
  new_Contributor :: "string option"
  new_ContributorOrganization :: "string option"
  new_Extension :: bool
  new_ExtendedByDataModelId :: "int option"

type_synonym EntityAssociationDTO = EntityAssociation

definition from_orm :: "EntityAssociation \<Rightarrow> EntityAssociationDTO" where
  "from_orm association = association"

text \<open>
  A field of the partial update is either absent from the request (\<open>Unset\<close>, left out by
  \<^verbatim>\<open>dict(exclude_unset=True)\<close>) or assigned a value. The two endpoint columns and
  \<^verbatim>\<open>Extension\<close> are not nullable, so a request assigns them a value; every other field
  may be assigned null.
\<close>

datatype 'a patch = Unset | Assigned 'a

record UpdateEntityAssociationDTO =
  upd_ParentEntityId :: "int patch"
  upd_ChildEntityId :: "int patch"
  upd_Relationship :: "string option patch"
  upd_Placement :: "string option patch"
  upd_Notes :: "string option patch"
  upd_CreationDate :: "string option patch"
  upd_ActivationDate :: "string option patch"
  upd_DeprecationDate :: "string option patch"
  upd_Contributor :: "string option patch"
  upd_ContributorOrganization :: "string option patch"
  upd_Extension :: "bool patch"
  upd_ExtendedByDataModelId :: "int option patch"

text \<open>Reading an attribute of the DTO: a field that was not set reads as \<^verbatim>\<open>None\<close>.\<close>

fun attr :: "'a patch \<Rightarrow> 'a option" where
  "attr Unset = None"
| "attr (Assigned v) = Some v"

fun attr_opt :: "'a option patch \<Rightarrow> 'a option" where
  "attr_opt Unset = None"
| "attr_opt (Assigned v) = v"

text \<open>Python truth values: \<^verbatim>\<open>None\<close>, \<^verbatim>\<open>0\<close> and the empty string are false.\<close>

fun truthy_int :: "int option \<Rightarrow> bool" where
  "truthy_int None = False"
| "truthy_int (Some n) = (n \<noteq> 0)"

fun truthy_str :: "string option \<Rightarrow> bool" where
  "truthy_str None = False"
| "truthy_str (Some s) = (s \<noteq> [])"

subsection \<open>Failures\<close>

text \<open>
  \<open>NotFound\<close> is the \<^verbatim>\<open>HTTPException\<close> with status 404, \<open>Conflict\<close> the one with status
  400. \<open>MultipleResultsFound\<close> is the exception that \<^verbatim>\<open>scalar_one_or_none\<close> raises when the
  query returns more than one row.
\<close>

datatype error = NotFound | Conflict | MultipleResultsFound

definition scalar_one_or_none :: "'a list \<Rightarrow> error + 'a option" where
  "scalar_one_or_none rows =
     (case rows of
        [] \<Rightarrow> Inr None
      | [r] \<Rightarrow> Inr (Some r)
      | _ \<Rightarrow> Inl MultipleResultsFound)"

definition first :: "'a list \<Rightarrow> 'a option" where
  "first rows = (case rows of [] \<Rightarrow> None | r # _ \<Rightarrow> Some r)"

subsection \<open>The two directories\<close>

text \<open>
  Modelled from the spec: \<^verbatim>\<open>get_entity_by_id\<close> of \<^verbatim>\<open>lif.mdr_services.entity_service\<close> is not
  part of the sources. It resolves an id to the entity and fails with \<open>NotFound\<close> when
  the entity does not exist or is soft-deleted.
\<close>

definition get_entity_by_id :: "session \<Rightarrow> int \<Rightarrow> error + Entity" where
  "get_entity_by_id s i =
     (case find (\<lambda>e. Entity_Id e = i) (Entities s) of
        None \<Rightarrow> Inl NotFound
      | Some e \<Rightarrow> if Entity_Deleted e then Inl NotFound else Inr e)"

text \<open>
  Modelled from the spec: \<^verbatim>\<open>check_entity_by_id\<close> of \<^verbatim>\<open>lif.mdr_services.helper_service\<close> is
  not part of the sources. It validates that the entity exists and is not soft-deleted,
  returns it, and fails with \<open>NotFound\<close> otherwise.
\<close>

definition check_entity_by_id :: "session \<Rightarrow> int \<Rightarrow> error + Entity" where
  "check_entity_by_id s i =
     (case find (\<lambda>e. Entity_Id e = i) (Entities s) of
        None \<Rightarrow> Inl NotFound
      | Some e \<Rightarrow> if Entity_Deleted e then Inl NotFound else Inr e)"

text \<open>
  Modelled from the spec: \<^verbatim>\<open>check_datamodel_by_id\<close> of \<^verbatim>\<open>lif.mdr_services.helper_service\<close>
  is not part of the sources. It resolves an id to the data model and fails with
  \<open>NotFound\<close> when the data model does not exist or is soft-deleted.
\<close>

definition check_datamodel_by_id :: "session \<Rightarrow> int \<Rightarrow> error + DataModel" where
  "check_datamodel_by_id s i =
     (case find (\<lambda>d. DataModel_Id d = i) (DataModels s) of
        None \<Rightarrow> Inl NotFound
      | Some d \<Rightarrow> if DataModel_Deleted d then Inl NotFound else Inr d)"

subsection \<open>Creating an association\<close>

text \<open>
  The \<^verbatim>\<open>where\<close> clause of \<^verbatim>\<open>check_existing_association\<close> and of
  \<^verbatim>\<open>retrieve_all_entity_associations\<close>. A comparison of a column with a Python value that
  is \<^verbatim>\<open>None\<close> is rendered as \<^verbatim>\<open>IS NULL\<close>, and a comparison of a null column with a value
  is not true, so on \<open>option\<close> values the comparison is equality.
\<close>

definition existing_where :: "int \<Rightarrow> int \<Rightarrow> int option \<Rightarrow> EntityAssociation \<Rightarrow> bool" where
  "existing_where parent_entity_id child_entity_id extended_by_data_model_id a =
     (ParentEntityId a = parent_entity_id
      \<and> ChildEntityId a = child_entity_id
      \<and> Deleted a = False
      \<and> (ExtendedByDataModelId a = None
           \<or> ExtendedByDataModelId a = extended_by_data_model_id))"

definition check_existing_association ::
    "session \<Rightarrow> int \<Rightarrow> int \<Rightarrow> int option \<Rightarrow> error + bool" where
  "check_existing_association s parent_entity_id child_entity_id extended_by_data_model_id =
     (case scalar_one_or_none
             (filter (existing_where parent_entity_id child_entity_id extended_by_data_model_id)
                     (EntityAssociations s)) of
        Inl e \<Rightarrow> Inl e
      | Inr r \<Rightarrow> Inr (r \<noteq> None))"

definition retrieve_all_entity_associations ::
    "session \<Rightarrow> int \<Rightarrow> int \<Rightarrow> int option \<Rightarrow> error + EntityAssociation list" where
  "retrieve_all_entity_associations s parent_entity_id child_entity_id extended_by_data_model_id =
     (let associations =
            filter (existing_where parent_entity_id child_entity_id extended_by_data_model_id)
                   (EntityAssociations s)
      in if associations = [] then Inl NotFound else Inr associations)"

text \<open>The row that \<^verbatim>\<open>create_entity_association\<close> builds; the sequence gives its id.\<close>

definition new_row :: "int \<Rightarrow> CreateEntityAssociationDTO \<Rightarrow> EntityAssociation" where
  "new_row i data =
     \<lparr> Assoc_Id = i,
       ParentEntityId = new_ParentEntityId data,
       ChildEntityId = new_ChildEntityId data,
       Relationship = new_Relationship data,
       Placement = new_Placement data,
       Notes = new_Notes data,
       CreationDate = new_CreationDate data,
       ActivationDate = new_ActivationDate data,
       DeprecationDate = new_DeprecationDate data,
       Contributor = new_Contributor data,
       ContributorOrganization = new_ContributorOrganization data,
       Extension = new_Extension data,
       ExtendedByDataModelId = new_ExtendedByDataModelId data,
       Deleted = False \<rparr>"

definition insert_row :: "session \<Rightarrow> EntityAssociation \<Rightarrow> session" where
  "insert_row s row =
     s\<lparr> EntityAssociations := EntityAssociations s @ [row], next_Id := next_Id s + 1 \<rparr>"

definition create_entity_association ::
    "session \<Rightarrow> CreateEntityAssociationDTO \<Rightarrow> (error + EntityAssociationDTO) \<times> session" where
  "create_entity_association s data0 =
     (case get_entity_by_id s (new_ParentEntityId data0) of
        Inl e \<Rightarrow> (Inl e, s)
      | Inr parent_entity \<Rightarrow>
     (case get_entity_by_id s (new_ChildEntityId data0) of
        Inl e \<Rightarrow> (Inl e, s)
      | Inr child_entity \<Rightarrow>
     (let data = (if Entity_Extension parent_entity \<or> Entity_Extension child_entity
                  then data0\<lparr> new_Extension := True \<rparr>
                  else data0\<lparr> new_Extension := False \<rparr>)
      in case check_existing_association s (new_ParentEntityId data) (new_ChildEntityId data)
                (new_ExtendedByDataModelId data) of
           Inl e \<Rightarrow> (Inl e, s)
         | Inr exists \<Rightarrow>
             if exists then (Inl Conflict, s)
             else (let entity_association = new_row (next_Id s) data
                   in (Inr (from_orm entity_association), insert_row s entity_association)))))"

subsection \<open>Reading, updating and deleting by id\<close>

definition get_entity_association_by_id :: "session \<Rightarrow> int \<Rightarrow> error + EntityAssociation" where
  "get_entity_association_by_id s association_id =
     (case find (\<lambda>a. Assoc_Id a = association_id) (EntityAssociations s) of
        None \<Rightarrow> Inl NotFound
      | Some association \<Rightarrow> if Deleted association then Inl NotFound else Inr association)"

definition duplicate_where ::
    "int \<Rightarrow> int \<Rightarrow> string option \<Rightarrow> int option \<Rightarrow> EntityAssociation \<Rightarrow> bool" where
  "duplicate_where parent_entity_id child_entity_id relationship extended_by_data_model_id a =
     (ParentEntityId a = parent_entity_id
      \<and> ChildEntityId a = child_entity_id
      \<and> Relationship a = relationship
      \<and> (ExtendedByDataModelId a = None
           \<or> ExtendedByDataModelId a = extended_by_data_model_id)
      \<and> Deleted a = False)"

definition get_entity_association_by_parent_child_relationship ::
    "session \<Rightarrow> int \<Rightarrow> int \<Rightarrow> string option \<Rightarrow> int option \<Rightarrow> EntityAssociation option" where
  "get_entity_association_by_parent_child_relationship s parent_entity_id child_entity_id
       relationship extended_by_data_model_id =
     first (filter (duplicate_where parent_entity_id child_entity_id relationship
                      extended_by_data_model_id)
                   (EntityAssociations s))"

text \<open>
  The loop over \<^verbatim>\<open>dto.dict(exclude_unset=True)\<close>: every field that was set is assigned to
  the row, every other field of the row is left as it is.
\<close>

fun assign :: "'a patch \<Rightarrow> 'a \<Rightarrow> 'a" where
  "assign Unset old = old"
| "assign (Assigned v) old = v"

definition setattrs :: "UpdateEntityAssociationDTO \<Rightarrow> EntityAssociation \<Rightarrow> EntityAssociation" where
  "setattrs dto a =
     a\<lparr> ParentEntityId := assign (upd_ParentEntityId dto) (ParentEntityId a),
        ChildEntityId := assign (upd_ChildEntityId dto) (ChildEntityId a),
        Relationship := assign (upd_Relationship dto) (Relationship a),
        Placement := assign (upd_Placement dto) (Placement a),
        Notes := assign (upd_Notes dto) (Notes a),
        CreationDate := assign (upd_CreationDate dto) (CreationDate a),
        ActivationDate := assign (upd_ActivationDate dto) (ActivationDate a),
        DeprecationDate := assign (upd_DeprecationDate dto) (DeprecationDate a),
        Contributor := assign (upd_Contributor dto) (Contributor a),
        ContributorOrganization :=
          assign (upd_ContributorOrganization dto) (ContributorOrganization a),
        Extension := assign (upd_Extension dto) (Extension a),
        ExtendedByDataModelId := assign (upd_ExtendedByDataModelId dto) (ExtendedByDataModelId a) \<rparr>"

text \<open>Writing a changed row back: the row with that primary key is replaced.\<close>

definition store_row :: "session \<Rightarrow> EntityAssociation \<Rightarrow> session" where
  "store_row s row =
     s\<lparr> EntityAssociations :=
          map (\<lambda>a. if Assoc_Id a = Assoc_Id row then row else a) (EntityAssociations s) \<rparr>"

definition remove_row :: "session \<Rightarrow> EntityAssociation \<Rightarrow> session" where
  "remove_row s row =
     s\<lparr> EntityAssociations :=
          filter (\<lambda>a. Assoc_Id a \<noteq> Assoc_Id row) (EntityAssociations s) \<rparr>"

text \<open>
  The validation of an endpoint of the partial update: the entity is looked up only when
  the field is true as a Python value, and only the failure of the lookup matters.
\<close>

fun check_if_given :: "session \<Rightarrow> int option \<Rightarrow> error option" where
  "check_if_given s None = None"
| "check_if_given s (Some i) =
     (if i \<noteq> 0
      then (case check_entity_by_id s i of Inl e \<Rightarrow> Some e | Inr _ \<Rightarrow> None)
      else None)"

text \<open>The Python expression \<^verbatim>\<open>x if x else y\<close> on the three kinds of field.\<close>

fun int_or_else :: "int option \<Rightarrow> int \<Rightarrow> int" where
  "int_or_else None old = old"
| "int_or_else (Some n) old = (if n \<noteq> 0 then n else old)"

definition str_or_else :: "string option \<Rightarrow> string option \<Rightarrow> string option" where
  "str_or_else v old = (if truthy_str v then v else old)"

definition scope_or_else :: "int option \<Rightarrow> int option \<Rightarrow> int option" where
  "scope_or_else v old = (if truthy_int v then v else old)"

text \<open>
  The block guarded by \<^verbatim>\<open>if dto.ParentEntityId or dto.ChildEntityId\<close>: it computes the
  tuple to look for and is true when the block raises, that is when the first association
  found has another id than the one under update.
\<close>

definition duplicate_check ::
    "session \<Rightarrow> int \<Rightarrow> UpdateEntityAssociationDTO \<Rightarrow> EntityAssociation \<Rightarrow> bool" where
  "duplicate_check s association_id dto entity_association =
     (if truthy_int (attr (upd_ParentEntityId dto)) \<or> truthy_int (attr (upd_ChildEntityId dto))
      then (let updated_parent_entity_id =
                  int_or_else (attr (upd_ParentEntityId dto)) (ParentEntityId entity_association);
                updated_child_entity_id =
                  int_or_else (attr (upd_ChildEntityId dto)) (ChildEntityId entity_association);
                updated_relationship =
                  str_or_else (attr_opt (upd_Relationship dto)) (Relationship entity_association);
                updated_extended_by_data_model_id =
                  scope_or_else (attr_opt (upd_ExtendedByDataModelId dto))
                    (ExtendedByDataModelId entity_association)
            in case get_entity_association_by_parent_child_relationship s
                      updated_parent_entity_id updated_child_entity_id
                      updated_relationship updated_extended_by_data_model_id of
                 None \<Rightarrow> False
               | Some existing_association \<Rightarrow> Assoc_Id existing_association \<noteq> association_id)
      else False)"

definition update_entity_association ::
    "session \<Rightarrow> int \<Rightarrow> UpdateEntityAssociationDTO \<Rightarrow> (error + EntityAssociationDTO) \<times> session" where
  "update_entity_association s association_id dto =
     (case get_entity_association_by_id s association_id of
        Inl e \<Rightarrow> (Inl e, s)
      | Inr entity_association \<Rightarrow>
     (case check_if_given s (attr (upd_ParentEntityId dto)) of
        Some e \<Rightarrow> (Inl e, s)
      | None \<Rightarrow>
     (case check_if_given s (attr (upd_ChildEntityId dto)) of
        Some e \<Rightarrow> (Inl e, s)
      | None \<Rightarrow>
     (if duplicate_check s association_id dto entity_association
      then (Inl Conflict, s)
      else (let updated = setattrs dto entity_association
            in (Inr (from_orm updated), store_row s updated))))))"

definition delete_entity_association :: "session \<Rightarrow> int \<Rightarrow> (error + unit) \<times> session" where
  "delete_entity_association s association_id =
     (case get_entity_association_by_id s association_id of
        Inl e \<Rightarrow> (Inl e, s)
      | Inr entity_association \<Rightarrow> (Inr (), remove_row s entity_association))"

definition soft_delete_entity_association :: "session \<Rightarrow> int \<Rightarrow> (error + unit) \<times> session" where
  "soft_delete_entity_association s association_id =
     (case get_entity_association_by_id s association_id of
        Inl e \<Rightarrow> (Inl e, s)
      | Inr entity_association \<Rightarrow>
          (Inr (), store_row s (entity_association\<lparr> Deleted := True \<rparr>)))"

subsection \<open>Listings\<close>

definition included_entity_ids :: "session \<Rightarrow> int \<Rightarrow> int list" where
  "included_entity_ids s data_model_id =
     map IncludedElementId
       (filter (\<lambda>i. ExtDataModelId i = data_model_id
                   \<and> ElementType i = ''Entity''
                   \<and> Inclusion_Deleted i = False)
               (ExtInclusions s))"

text \<open>
  In the branch of a base model the two joined queries are combined by \<^verbatim>\<open>UNION\<close>, which
  keeps one copy of every row and returns the rows in the order of the engine, the
  ranking \<open>union_rank\<close> of the session.
\<close>

definition get_entity_associations_by_data_model_id ::
    "session \<Rightarrow> int \<Rightarrow> error + EntityAssociationDTO list" where
  "get_entity_associations_by_data_model_id s data_model_id =
     (case check_datamodel_by_id s data_model_id of
        Inl e \<Rightarrow> Inl e
      | Inr data_model \<Rightarrow>
          (let entity_associations =
             (if DataModel_Type data_model = OrgLIF \<or> DataModel_Type data_model = PartnerLIF
              then filter (\<lambda>a. ParentEntityId a \<in> set (included_entity_ids s data_model_id)
                              \<and> ChildEntityId a \<in> set (included_entity_ids s data_model_id)
                              \<and> Deleted a = False
                              \<and> (ExtendedByDataModelId a = Some data_model_id
                                   \<or> ExtendedByDataModelId a = None))
                          (EntityAssociations s)
              else sort_key (union_rank s) (remdups
                     (filter (\<lambda>a. (\<exists>e \<in> set (Entities s).
                                      Entity_Id e = ParentEntityId a
                                      \<and> Entity_DataModelId e = data_model_id)
                                 \<and> Deleted a = False
                                 \<and> ExtendedByDataModelId a = None)
                             (EntityAssociations s)
                      @ filter (\<lambda>a. (\<exists>e \<in> set (Entities s).
                                        Entity_Id e = ChildEntityId a
                                        \<and> Entity_DataModelId e = data_model_id)
                                   \<and> Deleted a = False
                                   \<and> ExtendedByDataModelId a = None)
                               (EntityAssociations s))))
           in Inr (map from_orm entity_associations)))"

text \<open>
  \<^verbatim>\<open>check_entity_by_id\<close> returns the entity or raises, so the test \<^verbatim>\<open>if not parent_entity\<close>
  that follows it never fires.
\<close>

definition get_entity_associations_by_parent_entity_id ::
    "session \<Rightarrow> int \<Rightarrow> int option \<Rightarrow> error + EntityAssociationDTO list" where
  "get_entity_associations_by_parent_entity_id s parent_entity_id
       including_extended_by_data_model_id =
     (case check_entity_by_id s parent_entity_id of
        Inl e \<Rightarrow> Inl e
      | Inr parent_entity \<Rightarrow>
          (let entity_associations =
             (if truthy_int including_extended_by_data_model_id
              then filter (\<lambda>a. ParentEntityId a = parent_entity_id
                              \<and> Deleted a = False
                              \<and> (ExtendedByDataModelId a = including_extended_by_data_model_id
                                   \<or> ExtendedByDataModelId a = None))
                          (EntityAssociations s)
              else filter (\<lambda>a. ParentEntityId a = parent_entity_id
                              \<and> Deleted a = False
                              \<and> ExtendedByDataModelId a = None)
                          (EntityAssociations s))
           in Inr (map from_orm entity_associations)))"

subsection \<open>Sequences of requests\<close>

text \<open>
  The operations of the service that write, as requests, and the database that a request
  leaves behind; a request that fails leaves the database as it was. The operations that
  only read do not change the database.
\<close>

datatype request =
    Create CreateEntityAssociationDTO
  | Update int UpdateEntityAssociationDTO
  | Delete int
  | SoftDelete int

fun perform :: "session \<Rightarrow> request \<Rightarrow> session" where
  "perform s (Create data) = snd (create_entity_association s data)"
| "perform s (Update association_id dto) = snd (update_entity_association s association_id dto)"
| "perform s (Delete association_id) = snd (delete_entity_association s association_id)"
| "perform s (SoftDelete association_id) = snd (soft_delete_entity_association s association_id)"

subsection \<open>A small repository\<close>

text \<open>
  The scenario of the specification: entity 10 is a base entity, entity 20 belongs to the
  extension data model 99, which includes both; entity 30 is a base entity that model 99
  does not include.
\<close>

definition ex_entities :: "Entity list" where
  "ex_entities =
     [\<lparr> Entity_Id = 10, Entity_DataModelId = 1, Entity_Extension = False, Entity_Deleted = False \<rparr>,
      \<lparr> Entity_Id = 20, Entity_DataModelId = 99, Entity_Extension = True, Entity_Deleted = False \<rparr>,
      \<lparr> Entity_Id = 30, Entity_DataModelId = 1, Entity_Extension = False, Entity_Deleted = False \<rparr>]"

definition ex_data_models :: "DataModel list" where
  "ex_data_models =
     [\<lparr> DataModel_Id = 1, DataModel_Type = BaseLIF, DataModel_Deleted = False \<rparr>,
      \<lparr> DataModel_Id = 99, DataModel_Type = OrgLIF, DataModel_Deleted = False \<rparr>]"

definition ex_inclusions :: "ExtInclusionsFromBaseDM list" where
  "ex_inclusions =
     [\<lparr> ExtDataModelId = 99, ElementType = ''Entity'', IncludedElementId = 10,
        Inclusion_Deleted = False \<rparr>,
      \<lparr> ExtDataModelId = 99, ElementType = ''Entity'', IncludedElementId = 20,
        Inclusion_Deleted = False \<rparr>,
      \<lparr> ExtDataModelId = 99, ElementType = ''Attribute'', IncludedElementId = 30,
        Inclusion_Deleted = False \<rparr>]"

definition ex_session :: session where
  "ex_session =
     \<lparr> Entities = ex_entities, DataModels = ex_data_models, ExtInclusions = ex_inclusions,
       EntityAssociations = [], next_Id = 1, union_rank = Assoc_Id \<rparr>"

text \<open>
  A request to associate entity 10 with a child entity; the caller supplies
  \<^verbatim>\<open>Extension = False\<close>. The row that such a request stores under an id: its
  \<^verbatim>\<open>Extension\<close> flag is set when the child is the extension entity 20.
\<close>

definition ex_create :: "int \<Rightarrow> string \<Rightarrow> int option \<Rightarrow> CreateEntityAssociationDTO" where
  "ex_create child relationship scope =
     \<lparr> new_ParentEntityId = 10, new_ChildEntityId = child,
       new_Relationship = Some relationship, new_Placement = None, new_Notes = None,
       new_CreationDate = None, new_ActivationDate = None, new_DeprecationDate = None,
       new_Contributor = None, new_ContributorOrganization = None,
       new_Extension = False, new_ExtendedByDataModelId = scope \<rparr>"

definition ex_row :: "int \<Rightarrow> int \<Rightarrow> string \<Rightarrow> int option \<Rightarrow> EntityAssociation" where
  "ex_row i child relationship scope =
     \<lparr> Assoc_Id = i, ParentEntityId = 10, ChildEntityId = child,
       Relationship = Some relationship, Placement = None, Notes = None,
       CreationDate = None, ActivationDate = None, DeprecationDate = None,
       Contributor = None, ContributorOrganization = None,
       Extension = (child = 20), ExtendedByDataModelId = scope, Deleted = False \<rparr>"

text \<open>The repository with a given association table, and the partial update that sets no field.\<close>

definition ex_with :: "EntityAssociation list \<Rightarrow> session" where
  "ex_with rows = ex_session\<lparr> EntityAssociations := rows, next_Id := 1 + int (length rows) \<rparr>"

definition no_change :: UpdateEntityAssociationDTO where
  "no_change =
     \<lparr> upd_ParentEntityId = Unset, upd_ChildEntityId = Unset, upd_Relationship = Unset,
       upd_Placement = Unset, upd_Notes = Unset, upd_CreationDate = Unset,
       upd_ActivationDate = Unset, upd_DeprecationDate = Unset, upd_Contributor = Unset,
       upd_ContributorOrganization = Unset, upd_Extension = Unset,
       upd_ExtendedByDataModelId = Unset \<rparr>"

section \<open>Properties\<close>

subsection \<open>Auxiliary facts\<close>

lemmas ex_defs =
  ex_session_def ex_entities_def ex_data_models_def ex_inclusions_def ex_create_def
  ex_row_def ex_with_def no_change_def

lemma check_existing_cases:
  "check_existing_association s p c e =
     (case filter (existing_where p c e) (EntityAssociations s) of
        [] \<Rightarrow> Inr False | [r] \<Rightarrow> Inr True | _ \<Rightarrow> Inl MultipleResultsFound)"
  by (simp add: check_existing_association_def scalar_one_or_none_def split: list.splits)

lemma create_cases:
  assumes "get_entity_by_id s (new_ParentEntityId d) = Inr p"
      and "get_entity_by_id s (new_ChildEntityId d) = Inr c"
  shows "create_entity_association s d =
     (case filter (existing_where (new_ParentEntityId d) (new_ChildEntityId d)
                     (new_ExtendedByDataModelId d)) (EntityAssociations s) of
        [] \<Rightarrow> (let row = new_row (next_Id s)
                            (d\<lparr> new_Extension := Entity_Extension p \<or> Entity_Extension c \<rparr>)
               in (Inr row, insert_row s row))
      | [r] \<Rightarrow> (Inl Conflict, s)
      | _ \<Rightarrow> (Inl MultipleResultsFound, s))"
  using assms
  by (simp add: create_entity_association_def check_existing_cases from_orm_def Let_def
           split: list.splits)

lemma get_entity_by_id_error:
  "get_entity_by_id s i = Inl e \<Longrightarrow> e = NotFound"
  by (auto simp: get_entity_by_id_def split: option.splits if_splits)

lemma get_entity_by_id_insert_row [simp]:
  "get_entity_by_id (insert_row s row) i = get_entity_by_id s i"
  by (simp add: get_entity_by_id_def insert_row_def)

lemma EntityAssociations_insert_row [simp]:
  "EntityAssociations (insert_row s row) = EntityAssociations s @ [row]"
  by (simp add: insert_row_def)

lemma new_row_fields [simp]:
  "ParentEntityId (new_row i d) = new_ParentEntityId d"
  "ChildEntityId (new_row i d) = new_ChildEntityId d"
  "ExtendedByDataModelId (new_row i d) = new_ExtendedByDataModelId d"
  "Deleted (new_row i d) = False"
  "Assoc_Id (new_row i d) = i"
  "Extension (new_row i d) = new_Extension d"
  "Relationship (new_row i d) = new_Relationship d"
  by (simp_all add: new_row_def)

lemma create_success_iff:
  "create_entity_association s d = (Inr row, s') \<longleftrightarrow>
     (\<exists>p c. get_entity_by_id s (new_ParentEntityId d) = Inr p
          \<and> get_entity_by_id s (new_ChildEntityId d) = Inr c
          \<and> filter (existing_where (new_ParentEntityId d) (new_ChildEntityId d)
                       (new_ExtendedByDataModelId d)) (EntityAssociations s) = []
          \<and> row = new_row (next_Id s)
                     (d\<lparr> new_Extension := Entity_Extension p \<or> Entity_Extension c \<rparr>)
          \<and> s' = insert_row s row)"
proof (cases "get_entity_by_id s (new_ParentEntityId d)")
  case (Inl e)
  then show ?thesis by (simp add: create_entity_association_def)
next
  case p: (Inr p)
  show ?thesis
  proof (cases "get_entity_by_id s (new_ChildEntityId d)")
    case (Inl e)
    with p show ?thesis by (simp add: create_entity_association_def)
  next
    case c: (Inr c)
    show ?thesis
      by (auto simp: create_cases [OF p c] p c Let_def split: list.splits)
  qed
qed

text \<open>Creating an association in the small repository, evaluated.\<close>

lemma ex_create_eval:
  "child \<in> {20, 30} \<Longrightarrow>
   filter (existing_where 10 child scope) rows = [] \<Longrightarrow>
   create_entity_association (ex_with rows) (ex_create child r scope) =
     (Inr (ex_row (1 + int (length rows)) child r scope),
      ex_with (rows @ [ex_row (1 + int (length rows)) child r scope]))"
  by (auto simp: create_entity_association_def get_entity_by_id_def check_existing_cases
        insert_row_def new_row_def from_orm_def Let_def ex_defs)

lemma ex_session_with: "ex_session = ex_with []"
  by (simp add: ex_defs)

lemma ex_get_entity:
  "get_entity_by_id (ex_with rows) 10 = Inr (ex_entities ! 0)"
  "get_entity_by_id (ex_with rows) 20 = Inr (ex_entities ! 1)"
  "get_entity_by_id (ex_with rows) 30 = Inr (ex_entities ! 2)"
  by (simp_all add: get_entity_by_id_def ex_defs)

lemma ex_create_fields [simp]:
  "new_ParentEntityId (ex_create child r scope) = 10"
  "new_ChildEntityId (ex_create child r scope) = child"
  "new_ExtendedByDataModelId (ex_create child r scope) = scope"
  "new_Extension (ex_create child r scope) = False"
  by (simp_all add: ex_create_def)

lemma EntityAssociations_ex_with [simp]: "EntityAssociations (ex_with rows) = rows"
  by (simp add: ex_with_def)

subsection \<open>Creation: the derived extension flag\<close>

text \<open>
  C3. Whenever \<^verbatim>\<open>create_entity_association\<close> succeeds, both endpoint entities resolve, the
  row that is returned is the row appended to the association table, and its
  \<^verbatim>\<open>Extension\<close> field is the disjunction of the \<^verbatim>\<open>Extension\<close> flags of the parent and the
  child entity, whatever value the caller supplied in the DTO.
\<close>

theorem create_extension_derived:
  assumes "create_entity_association s data = (Inr row, s')"
  shows "\<exists>parent child.
           get_entity_by_id s (new_ParentEntityId data) = Inr parent
         \<and> get_entity_by_id s (new_ChildEntityId data) = Inr child
         \<and> Extension row = (Entity_Extension parent \<or> Entity_Extension child)
         \<and> EntityAssociations s' = EntityAssociations s @ [row]"
proof -
  from assms obtain p c where
      p: "get_entity_by_id s (new_ParentEntityId data) = Inr p"
    and c: "get_entity_by_id s (new_ChildEntityId data) = Inr c"
    and row: "row = new_row (next_Id s)
                (data\<lparr> new_Extension := Entity_Extension p \<or> Entity_Extension c \<rparr>)"
    and s': "s' = insert_row s row"
    unfolding create_success_iff by blast
  have "Extension row = (Entity_Extension p \<or> Entity_Extension c)"
    by (simp add: row)
  moreover have "EntityAssociations s' = EntityAssociations s @ [row]"
    by (simp add: s')
  ultimately show ?thesis using p c by blast
qed

text \<open>
  Entity 10 is a base entity and entity 20 an extension entity; the caller supplies
  \<^verbatim>\<open>Extension = False\<close>, and the row that is stored has \<^verbatim>\<open>Extension = True\<close>.
\<close>

theorem create_extension_derived_witness:
  "create_entity_association ex_session (ex_create 20 ''contains'' None)
     = (Inr (ex_row 1 20 ''contains'' None), ex_with [ex_row 1 20 ''contains'' None])
   \<and> new_Extension (ex_create 20 ''contains'' None) = False
   \<and> Extension (ex_row 1 20 ''contains'' None) = True
   \<and> EntityAssociations (ex_with [ex_row 1 20 ''contains'' None])
       = EntityAssociations ex_session @ [ex_row 1 20 ''contains'' None]"
proof -
  have created: "create_entity_association ex_session (ex_create 20 ''contains'' None)
     = (Inr (ex_row 1 20 ''contains'' None), ex_with [ex_row 1 20 ''contains'' None])"
    using ex_create_eval [of 20 None "[]" "''contains''"] by (simp add: ex_session_with)
  from create_extension_derived [OF created] obtain parent child where
      "get_entity_by_id ex_session 10 = Inr parent"
    and "get_entity_by_id ex_session 20 = Inr child"
    and flag: "Extension (ex_row 1 20 ''contains'' None)
                = (Entity_Extension parent \<or> Entity_Extension child)"
    and stored: "EntityAssociations (ex_with [ex_row 1 20 ''contains'' None])
                = EntityAssociations ex_session @ [ex_row 1 20 ''contains'' None]"
    by auto
  then have "parent = ex_entities ! 0" and "child = ex_entities ! 1"
    by (simp_all add: ex_session_with ex_get_entity)
  with flag have "Extension (ex_row 1 20 ''contains'' None) = True"
    by (simp add: ex_entities_def)
  with created stored show ?thesis by simp
qed

subsection \<open>Creation: the duplicate check\<close>

text \<open>
  C1, as the code has it. Once \<^verbatim>\<open>create_entity_association\<close> has succeeded for a pair of
  entities with a scope, a second call for the same pair fails with \<open>Conflict\<close> and leaves
  the database as it is, whatever its relationship, when its scope equals the scope of
  the first call (both null included), and also when the first call was of base scope
  (null) and no other active association of the pair carries the scope of the second
  call. The other direction is not a conflict: after a first call with an extension
  scope, every second call for the same pair with a null scope succeeds; it stores, under
  the next id and after the rows there are, an active row that has the fields of its
  request, a null scope and the derived \<^verbatim>\<open>Extension\<close> flag.
\<close>

theorem create_conflict_on_overlap:
  assumes first: "create_entity_association s d1 = (Inr r1, s1)"
      and parent: "new_ParentEntityId d2 = new_ParentEntityId d1"
      and child: "new_ChildEntityId d2 = new_ChildEntityId d1"
  shows "(new_ExtendedByDataModelId d2 = new_ExtendedByDataModelId d1
            \<or> (new_ExtendedByDataModelId d1 = None
                \<and> (\<forall>a \<in> set (EntityAssociations s).
                      ParentEntityId a = new_ParentEntityId d1
                      \<and> ChildEntityId a = new_ChildEntityId d1
                      \<and> Deleted a = False
                      \<longrightarrow> ExtendedByDataModelId a \<noteq> new_ExtendedByDataModelId d2))
          \<longrightarrow> create_entity_association s1 d2 = (Inl Conflict, s1))
       \<and> (new_ExtendedByDataModelId d1 \<noteq> None \<and> new_ExtendedByDataModelId d2 = None
          \<longrightarrow> (\<exists>p c r2 s2.
                 get_entity_by_id s1 (new_ParentEntityId d2) = Inr p
               \<and> get_entity_by_id s1 (new_ChildEntityId d2) = Inr c
               \<and> create_entity_association s1 d2 = (Inr r2, s2)
               \<and> r2 = \<lparr> Assoc_Id = next_Id s1,
                        ParentEntityId = new_ParentEntityId d2,
                        ChildEntityId = new_ChildEntityId d2,
                        Relationship = new_Relationship d2,
                        Placement = new_Placement d2,
                        Notes = new_Notes d2,
                        CreationDate = new_CreationDate d2,
                        ActivationDate = new_ActivationDate d2,
                        DeprecationDate = new_DeprecationDate d2,
                        Contributor = new_Contributor d2,
                        ContributorOrganization = new_ContributorOrganization d2,
                        Extension = (Entity_Extension p \<or> Entity_Extension c),
                        ExtendedByDataModelId = None,
                        Deleted = False \<rparr>
               \<and> EntityAssociations s2 = EntityAssociations s1 @ [r2]
               \<and> Entities s2 = Entities s1))"
proof -
  from first obtain p c where
      p: "get_entity_by_id s (new_ParentEntityId d1) = Inr p"
    and c: "get_entity_by_id s (new_ChildEntityId d1) = Inr c"
    and none: "filter (existing_where (new_ParentEntityId d1) (new_ChildEntityId d1)
                 (new_ExtendedByDataModelId d1)) (EntityAssociations s) = []"
    and r1: "r1 = new_row (next_Id s)
               (d1\<lparr> new_Extension := Entity_Extension p \<or> Entity_Extension c \<rparr>)"
    and s1: "s1 = insert_row s r1"
    unfolding create_success_iff by blast
  have p2: "get_entity_by_id s1 (new_ParentEntityId d2) = Inr p"
   and c2: "get_entity_by_id s1 (new_ChildEntityId d2) = Inr c"
    by (simp_all add: s1 parent child p c)
  have conflict: "create_entity_association s1 d2 = (Inl Conflict, s1)"
    if scope: "new_ExtendedByDataModelId d2 = new_ExtendedByDataModelId d1
                  \<or> (new_ExtendedByDataModelId d1 = None
                      \<and> (\<forall>a \<in> set (EntityAssociations s).
                            ParentEntityId a = new_ParentEntityId d1
                            \<and> ChildEntityId a = new_ChildEntityId d1
                            \<and> Deleted a = False
                            \<longrightarrow> ExtendedByDataModelId a \<noteq> new_ExtendedByDataModelId d2))"
  proof -
    have old: "filter (existing_where (new_ParentEntityId d1) (new_ChildEntityId d1)
                 (new_ExtendedByDataModelId d2)) (EntityAssociations s) = []"
      using none scope unfolding filter_empty_conv existing_where_def by auto
    have new: "existing_where (new_ParentEntityId d1) (new_ChildEntityId d1)
                 (new_ExtendedByDataModelId d2) r1"
      using scope by (auto simp: existing_where_def r1)
    have "filter (existing_where (new_ParentEntityId d2) (new_ChildEntityId d2)
            (new_ExtendedByDataModelId d2)) (EntityAssociations s1) = [r1]"
      by (simp add: s1 parent child old new)
    with p2 c2 show ?thesis
      by (simp add: create_cases)
  qed
  have success: "\<exists>p c r2 s2.
                 get_entity_by_id s1 (new_ParentEntityId d2) = Inr p
               \<and> get_entity_by_id s1 (new_ChildEntityId d2) = Inr c
               \<and> create_entity_association s1 d2 = (Inr r2, s2)
               \<and> r2 = \<lparr> Assoc_Id = next_Id s1,
                        ParentEntityId = new_ParentEntityId d2,
                        ChildEntityId = new_ChildEntityId d2,
                        Relationship = new_Relationship d2,
                        Placement = new_Placement d2,
                        Notes = new_Notes d2,
                        CreationDate = new_CreationDate d2,
                        ActivationDate = new_ActivationDate d2,
                        DeprecationDate = new_DeprecationDate d2,
                        Contributor = new_Contributor d2,
                        ContributorOrganization = new_ContributorOrganization d2,
                        Extension = (Entity_Extension p \<or> Entity_Extension c),
                        ExtendedByDataModelId = None,
                        Deleted = False \<rparr>
               \<and> EntityAssociations s2 = EntityAssociations s1 @ [r2]
               \<and> Entities s2 = Entities s1"
    if ext: "new_ExtendedByDataModelId d1 \<noteq> None" and base: "new_ExtendedByDataModelId d2 = None"
  proof -
    define r2 where "r2 = new_row (next_Id s1)
                       (d2\<lparr> new_Extension := Entity_Extension p \<or> Entity_Extension c \<rparr>)"
    define s2 where "s2 = insert_row s1 r2"
    have old: "filter (existing_where (new_ParentEntityId d1) (new_ChildEntityId d1) None)
                 (EntityAssociations s) = []"
      using none unfolding filter_empty_conv existing_where_def by auto
    have new: "\<not> existing_where (new_ParentEntityId d1) (new_ChildEntityId d1) None r1"
      using ext by (simp add: existing_where_def r1)
    have "filter (existing_where (new_ParentEntityId d2) (new_ChildEntityId d2)
            (new_ExtendedByDataModelId d2)) (EntityAssociations s1) = []"
      by (simp add: s1 parent child base old new)
    with p2 c2 have created: "create_entity_association s1 d2 = (Inr r2, s2)"
      unfolding create_success_iff using r2_def s2_def by blast
    have row: "r2 = \<lparr> Assoc_Id = next_Id s1,
                        ParentEntityId = new_ParentEntityId d2,
                        ChildEntityId = new_ChildEntityId d2,
                        Relationship = new_Relationship d2,
                        Placement = new_Placement d2,
                        Notes = new_Notes d2,
                        CreationDate = new_CreationDate d2,
                        ActivationDate = new_ActivationDate d2,
                        DeprecationDate = new_DeprecationDate d2,
                        Contributor = new_Contributor d2,
                        ContributorOrganization = new_ContributorOrganization d2,
                        Extension = (Entity_Extension p \<or> Entity_Extension c),
                        ExtendedByDataModelId = None,
                        Deleted = False \<rparr>"
      by (simp add: r2_def new_row_def base)
    have stored: "EntityAssociations s2 = EntityAssociations s1 @ [r2]"
      and entities: "Entities s2 = Entities s1"
      by (simp_all add: s2_def insert_row_def)
    from p2 c2 created row stored entities show ?thesis by blast
  qed
  from conflict success show ?thesis by blast
qed

text \<open>
  The three cases in the small repository: a second association of scope 5 after one of
  scope 5 and an association of scope 5 after one of base scope are conflicts; an
  association of base scope after one of scope 5 is stored as row 2.
\<close>

theorem create_conflict_on_overlap_witness:
  "create_entity_association (ex_with [ex_row 1 20 ''contains'' (Some 5)])
       (ex_create 20 ''references'' (Some 5))
     = (Inl Conflict, ex_with [ex_row 1 20 ''contains'' (Some 5)])
   \<and> create_entity_association (ex_with [ex_row 1 20 ''contains'' None])
       (ex_create 20 ''references'' (Some 5))
     = (Inl Conflict, ex_with [ex_row 1 20 ''contains'' None])
   \<and> (\<exists>s2. create_entity_association (ex_with [ex_row 1 20 ''contains'' (Some 5)])
              (ex_create 20 ''includes'' None)
            = (Inr (ex_row 2 20 ''includes'' None), s2)
          \<and> EntityAssociations s2
            = [ex_row 1 20 ''contains'' (Some 5), ex_row 2 20 ''includes'' None])"
proof -
  have same: "create_entity_association ex_session (ex_create 20 ''contains'' (Some 5))
     = (Inr (ex_row 1 20 ''contains'' (Some 5)), ex_with [ex_row 1 20 ''contains'' (Some 5)])"
    using ex_create_eval [of 20 "Some 5" "[]" "''contains''"] by (simp add: ex_session_with)
  have base: "create_entity_association ex_session (ex_create 20 ''contains'' None)
     = (Inr (ex_row 1 20 ''contains'' None), ex_with [ex_row 1 20 ''contains'' None])"
    using ex_create_eval [of 20 None "[]" "''contains''"] by (simp add: ex_session_with)
  have "create_entity_association (ex_with [ex_row 1 20 ''contains'' (Some 5)])
          (ex_create 20 ''references'' (Some 5))
        = (Inl Conflict, ex_with [ex_row 1 20 ''contains'' (Some 5)])"
    using create_conflict_on_overlap [OF same, of "ex_create 20 ''references'' (Some 5)"]
    by simp
  moreover have "create_entity_association (ex_with [ex_row 1 20 ''contains'' None])
          (ex_create 20 ''references'' (Some 5))
        = (Inl Conflict, ex_with [ex_row 1 20 ''contains'' None])"
    using create_conflict_on_overlap [OF base, of "ex_create 20 ''references'' (Some 5)"]
    by (simp add: ex_session_with)
  moreover have "\<exists>s2. create_entity_association (ex_with [ex_row 1 20 ''contains'' (Some 5)])
              (ex_create 20 ''includes'' None)
            = (Inr (ex_row 2 20 ''includes'' None), s2)
          \<and> EntityAssociations s2
            = [ex_row 1 20 ''contains'' (Some 5), ex_row 2 20 ''includes'' None]"
  proof -
    from create_conflict_on_overlap [OF same, of "ex_create 20 ''includes'' None"]
    obtain p c r2 s2 where
        "get_entity_by_id (ex_with [ex_row 1 20 ''contains'' (Some 5)]) 10 = Inr p"
      and "get_entity_by_id (ex_with [ex_row 1 20 ''contains'' (Some 5)]) 20 = Inr c"
      and created: "create_entity_association (ex_with [ex_row 1 20 ''contains'' (Some 5)])
              (ex_create 20 ''includes'' None) = (Inr r2, s2)"
      and row: "r2 = \<lparr> Assoc_Id = next_Id (ex_with [ex_row 1 20 ''contains'' (Some 5)]),
                        ParentEntityId = 10, ChildEntityId = 20,
                        Relationship = Some ''includes'', Placement = None, Notes = None,
                        CreationDate = None, ActivationDate = None, DeprecationDate = None,
                        Contributor = None, ContributorOrganization = None,
                        Extension = (Entity_Extension p \<or> Entity_Extension c),
                        ExtendedByDataModelId = None, Deleted = False \<rparr>"
      and stored: "EntityAssociations s2 = [ex_row 1 20 ''contains'' (Some 5)] @ [r2]"
      by (auto simp: ex_create_def)
    then have "p = ex_entities ! 0" and "c = ex_entities ! 1"
      by (simp_all add: ex_get_entity)
    with row have "r2 = ex_row 2 20 ''includes'' None"
      by (simp add: ex_row_def ex_with_def ex_entities_def)
    with created stored show ?thesis by simp
  qed
  ultimately show ?thesis by blast
qed

text \<open>
  C1 as stated fails: the association of entities 10 and 20 with scope 5 is created, and
  the second call for the same pair with a null scope is not a \<open>Conflict\<close>; it creates a
  second row.
\<close>

theorem create_base_after_extension_counterexample:
  "create_entity_association ex_session (ex_create 20 ''contains'' (Some 5))
     = (Inr (ex_row 1 20 ''contains'' (Some 5)), ex_with [ex_row 1 20 ''contains'' (Some 5)])
   \<and> new_ExtendedByDataModelId (ex_create 20 ''references'' None) = None
   \<and> create_entity_association (ex_with [ex_row 1 20 ''contains'' (Some 5)])
       (ex_create 20 ''references'' None)
     = (Inr (ex_row 2 20 ''references'' None),
        ex_with [ex_row 1 20 ''contains'' (Some 5), ex_row 2 20 ''references'' None])
   \<and> fst (create_entity_association (ex_with [ex_row 1 20 ''contains'' (Some 5)])
            (ex_create 20 ''references'' None)) \<noteq> Inl Conflict"
proof -
  have "create_entity_association ex_session (ex_create 20 ''contains'' (Some 5))
     = (Inr (ex_row 1 20 ''contains'' (Some 5)), ex_with [ex_row 1 20 ''contains'' (Some 5)])"
    using ex_create_eval [of 20 "Some 5" "[]" "''contains''"] by (simp add: ex_session_with)
  moreover have "create_entity_association (ex_with [ex_row 1 20 ''contains'' (Some 5)])
       (ex_create 20 ''references'' None)
     = (Inr (ex_row 2 20 ''references'' None),
        ex_with [ex_row 1 20 ''contains'' (Some 5), ex_row 2 20 ''references'' None])"
    by (simp add: ex_create_eval existing_where_def ex_row_def)
  ultimately show ?thesis by simp
qed

text \<open>
  C4, as the code has it. Let both entities of a pair resolve and let no active
  association of the pair have a null scope or one of two distinct extension scopes.
  Then creating an association of the pair with the first scope and after it one with
  the second scope both succeed, with any relationships: the first call stores, under
  the next id, an active row of the pair with the fields of its request, the first scope
  and the derived \<^verbatim>\<open>Extension\<close> flag, the second call stores such a row with the second
  scope under the id after it, and the association table is the table as it was followed
  by these two rows. The row of the one extension data model is no conflict for the
  other.
\<close>

theorem create_distinct_scopes_independent:
  assumes p: "get_entity_by_id s (new_ParentEntityId d1) = Inr p"
      and c: "get_entity_by_id s (new_ChildEntityId d1) = Inr c"
      and parent: "new_ParentEntityId d2 = new_ParentEntityId d1"
      and child: "new_ChildEntityId d2 = new_ChildEntityId d1"
      and scope1: "new_ExtendedByDataModelId d1 = Some x1"
      and scope2: "new_ExtendedByDataModelId d2 = Some x2"
      and distinct: "x1 \<noteq> x2"
      and free: "\<forall>a \<in> set (EntityAssociations s).
                   ParentEntityId a = new_ParentEntityId d1
                   \<and> ChildEntityId a = new_ChildEntityId d1
                   \<and> Deleted a = False
                   \<longrightarrow> ExtendedByDataModelId a \<notin> {None, Some x1, Some x2}"
  shows "\<exists>r1 s1 r2 s2.
           create_entity_association s d1 = (Inr r1, s1)
         \<and> create_entity_association s1 d2 = (Inr r2, s2)
         \<and> r1 = \<lparr> Assoc_Id = next_Id s,
                  ParentEntityId = new_ParentEntityId d1,
                  ChildEntityId = new_ChildEntityId d1,
                  Relationship = new_Relationship d1,
                  Placement = new_Placement d1,
                  Notes = new_Notes d1,
                  CreationDate = new_CreationDate d1,
                  ActivationDate = new_ActivationDate d1,
                  DeprecationDate = new_DeprecationDate d1,
                  Contributor = new_Contributor d1,
                  ContributorOrganization = new_ContributorOrganization d1,
                  Extension = (Entity_Extension p \<or> Entity_Extension c),
                  ExtendedByDataModelId = Some x1,
                  Deleted = False \<rparr>
         \<and> r2 = \<lparr> Assoc_Id = next_Id s + 1,
                  ParentEntityId = new_ParentEntityId d1,
                  ChildEntityId = new_ChildEntityId d1,
                  Relationship = new_Relationship d2,
                  Placement = new_Placement d2,
                  Notes = new_Notes d2,
                  CreationDate = new_CreationDate d2,
                  ActivationDate = new_ActivationDate d2,
                  DeprecationDate = new_DeprecationDate d2,
                  Contributor = new_Contributor d2,
                  ContributorOrganization = new_ContributorOrganization d2,
                  Extension = (Entity_Extension p \<or> Entity_Extension c),
                  ExtendedByDataModelId = Some x2,
                  Deleted = False \<rparr>
         \<and> EntityAssociations s1 = EntityAssociations s @ [r1]
         \<and> EntityAssociations s2 = EntityAssociations s @ [r1, r2]
         \<and> Entities s2 = Entities s"
proof -
  define r1 where "r1 = new_row (next_Id s)
                     (d1\<lparr> new_Extension := Entity_Extension p \<or> Entity_Extension c \<rparr>)"
  define s1 where "s1 = insert_row s r1"
  define r2 where "r2 = new_row (next_Id s1)
                     (d2\<lparr> new_Extension := Entity_Extension p \<or> Entity_Extension c \<rparr>)"
  define s2 where "s2 = insert_row s1 r2"
  have none1: "filter (existing_where (new_ParentEntityId d1) (new_ChildEntityId d1)
                 (new_ExtendedByDataModelId d1)) (EntityAssociations s) = []"
    using free unfolding filter_empty_conv existing_where_def scope1 by auto
  have first: "create_entity_association s d1 = (Inr r1, s1)"
    unfolding create_success_iff using p c none1 r1_def s1_def by blast
  have old2: "filter (existing_where (new_ParentEntityId d1) (new_ChildEntityId d1)
                (Some x2)) (EntityAssociations s) = []"
    using free unfolding filter_empty_conv existing_where_def by auto
  have new2: "\<not> existing_where (new_ParentEntityId d1) (new_ChildEntityId d1) (Some x2) r1"
    using distinct by (simp add: existing_where_def r1_def scope1)
  have none2: "filter (existing_where (new_ParentEntityId d2) (new_ChildEntityId d2)
                 (new_ExtendedByDataModelId d2)) (EntityAssociations s1) = []"
    by (simp add: s1_def parent child scope2 old2 new2)
  have "get_entity_by_id s1 (new_ParentEntityId d2) = Inr p"
   and "get_entity_by_id s1 (new_ChildEntityId d2) = Inr c"
    by (simp_all add: s1_def parent child p c)
  then have second: "create_entity_association s1 d2 = (Inr r2, s2)"
    unfolding create_success_iff using none2 r2_def s2_def by blast
  have row1: "r1 = \<lparr> Assoc_Id = next_Id s,
                  ParentEntityId = new_ParentEntityId d1,
                  ChildEntityId = new_ChildEntityId d1,
                  Relationship = new_Relationship d1,
                  Placement = new_Placement d1,
                  Notes = new_Notes d1,
                  CreationDate = new_CreationDate d1,
                  ActivationDate = new_ActivationDate d1,
                  DeprecationDate = new_DeprecationDate d1,
                  Contributor = new_Contributor d1,
                  ContributorOrganization = new_ContributorOrganization d1,
                  Extension = (Entity_Extension p \<or> Entity_Extension c),
                  ExtendedByDataModelId = Some x1,
                  Deleted = False \<rparr>"
    by (simp add: r1_def new_row_def scope1)
  have row2: "r2 = \<lparr> Assoc_Id = next_Id s + 1,
                  ParentEntityId = new_ParentEntityId d1,
                  ChildEntityId = new_ChildEntityId d1,
                  Relationship = new_Relationship d2,
                  Placement = new_Placement d2,
                  Notes = new_Notes d2,
                  CreationDate = new_CreationDate d2,
                  ActivationDate = new_ActivationDate d2,
                  DeprecationDate = new_DeprecationDate d2,
                  Contributor = new_Contributor d2,
                  ContributorOrganization = new_ContributorOrganization d2,
                  Extension = (Entity_Extension p \<or> Entity_Extension c),
                  ExtendedByDataModelId = Some x2,
                  Deleted = False \<rparr>"
    by (simp add: r2_def s1_def new_row_def insert_row_def scope2 parent child)
  have tables: "EntityAssociations s1 = EntityAssociations s @ [r1]"
               "EntityAssociations s2 = EntityAssociations s @ [r1, r2]"
               "Entities s2 = Entities s"
    by (simp_all add: s2_def s1_def insert_row_def)
  from first second row1 row2 tables show ?thesis by blast
qed

text \<open>The example of the specification: scope 5, then scope 7, stored as rows 1 and 2.\<close>

theorem create_distinct_scopes_independent_witness:
  "\<exists>s1 s2.
      create_entity_association ex_session (ex_create 20 ''contains'' (Some 5))
        = (Inr (ex_row 1 20 ''contains'' (Some 5)), s1)
    \<and> create_entity_association s1 (ex_create 20 ''references'' (Some 7))
        = (Inr (ex_row 2 20 ''references'' (Some 7)), s2)
    \<and> EntityAssociations s2
        = [ex_row 1 20 ''contains'' (Some 5), ex_row 2 20 ''references'' (Some 7)]"
proof -
  have p: "get_entity_by_id ex_session
             (new_ParentEntityId (ex_create 20 ''contains'' (Some 5))) = Inr (ex_entities ! 0)"
   and c: "get_entity_by_id ex_session
             (new_ChildEntityId (ex_create 20 ''contains'' (Some 5))) = Inr (ex_entities ! 1)"
    by (simp_all add: ex_session_with ex_get_entity)
  have free: "\<forall>a \<in> set (EntityAssociations ex_session).
                   ParentEntityId a = new_ParentEntityId (ex_create 20 ''contains'' (Some 5))
                   \<and> ChildEntityId a = new_ChildEntityId (ex_create 20 ''contains'' (Some 5))
                   \<and> Deleted a = False
                   \<longrightarrow> ExtendedByDataModelId a \<notin> {None, Some 5, Some 7}"
    by (simp add: ex_session_with)
  have rows: "\<lparr> Assoc_Id = next_Id ex_session,
                  ParentEntityId = new_ParentEntityId (ex_create 20 ''contains'' (Some 5)),
                  ChildEntityId = new_ChildEntityId (ex_create 20 ''contains'' (Some 5)),
                  Relationship = new_Relationship (ex_create 20 ''contains'' (Some 5)),
                  Placement = new_Placement (ex_create 20 ''contains'' (Some 5)),
                  Notes = new_Notes (ex_create 20 ''contains'' (Some 5)),
                  CreationDate = new_CreationDate (ex_create 20 ''contains'' (Some 5)),
                  ActivationDate = new_ActivationDate (ex_create 20 ''contains'' (Some 5)),
                  DeprecationDate = new_DeprecationDate (ex_create 20 ''contains'' (Some 5)),
                  Contributor = new_Contributor (ex_create 20 ''contains'' (Some 5)),
                  ContributorOrganization
                    = new_ContributorOrganization (ex_create 20 ''contains'' (Some 5)),
                  Extension = (Entity_Extension (ex_entities ! 0)
                               \<or> Entity_Extension (ex_entities ! 1)),
                  ExtendedByDataModelId = Some 5,
                  Deleted = False \<rparr> = ex_row 1 20 ''contains'' (Some 5)"
             "\<lparr> Assoc_Id = next_Id ex_session + 1,
                  ParentEntityId = new_ParentEntityId (ex_create 20 ''contains'' (Some 5)),
                  ChildEntityId = new_ChildEntityId (ex_create 20 ''contains'' (Some 5)),
                  Relationship = new_Relationship (ex_create 20 ''references'' (Some 7)),
                  Placement = new_Placement (ex_create 20 ''references'' (Some 7)),
                  Notes = new_Notes (ex_create 20 ''references'' (Some 7)),
                  CreationDate = new_CreationDate (ex_create 20 ''references'' (Some 7)),
                  ActivationDate = new_ActivationDate (ex_create 20 ''references'' (Some 7)),
                  DeprecationDate = new_DeprecationDate (ex_create 20 ''references'' (Some 7)),
                  Contributor = new_Contributor (ex_create 20 ''references'' (Some 7)),
                  ContributorOrganization
                    = new_ContributorOrganization (ex_create 20 ''references'' (Some 7)),
                  Extension = (Entity_Extension (ex_entities ! 0)
                               \<or> Entity_Extension (ex_entities ! 1)),
                  ExtendedByDataModelId = Some 7,
                  Deleted = False \<rparr> = ex_row 2 20 ''references'' (Some 7)"
    by (simp_all add: ex_defs)
  show ?thesis
    using create_distinct_scopes_independent
            [OF p c _ _ _ _ _ free, of "ex_create 20 ''references'' (Some 7)"]
    unfolding rows
    by (auto simp: ex_session_with)
qed

text \<open>
  C4 as stated fails: not every pair admits the two creations. When the pair of entities
  10 and 20 already has an active association of base scope, created by the service, the
  creation with scope 5 is a \<open>Conflict\<close>; and when it already has one of scope 7, the
  creation with scope 5 succeeds and the creation with scope 7 after it is a \<open>Conflict\<close>.
\<close>

theorem create_distinct_scopes_counterexample:
  "create_entity_association ex_session (ex_create 20 ''contains'' None)
     = (Inr (ex_row 1 20 ''contains'' None), ex_with [ex_row 1 20 ''contains'' None])
   \<and> fst (create_entity_association (ex_with [ex_row 1 20 ''contains'' None])
            (ex_create 20 ''includes'' (Some 5))) = Inl Conflict
   \<and> create_entity_association (ex_with [ex_row 1 20 ''contains'' (Some 7)])
       (ex_create 20 ''includes'' (Some 5))
     = (Inr (ex_row 2 20 ''includes'' (Some 5)),
        ex_with [ex_row 1 20 ''contains'' (Some 7), ex_row 2 20 ''includes'' (Some 5)])
   \<and> fst (create_entity_association
            (ex_with [ex_row 1 20 ''contains'' (Some 7), ex_row 2 20 ''includes'' (Some 5)])
            (ex_create 20 ''references'' (Some 7))) = Inl Conflict"
proof -
  have "create_entity_association ex_session (ex_create 20 ''contains'' None)
     = (Inr (ex_row 1 20 ''contains'' None), ex_with [ex_row 1 20 ''contains'' None])"
    using ex_create_eval [of 20 None "[]" "''contains''"] by (simp add: ex_session_with)
  moreover have "fst (create_entity_association (ex_with [ex_row 1 20 ''contains'' None])
            (ex_create 20 ''includes'' (Some 5))) = Inl Conflict"
    by (simp add: create_entity_association_def check_existing_cases ex_get_entity
          existing_where_def ex_row_def)
  moreover have "create_entity_association (ex_with [ex_row 1 20 ''contains'' (Some 7)])
       (ex_create 20 ''includes'' (Some 5))
     = (Inr (ex_row 2 20 ''includes'' (Some 5)),
        ex_with [ex_row 1 20 ''contains'' (Some 7), ex_row 2 20 ''includes'' (Some 5)])"
    by (simp add: ex_create_eval existing_where_def ex_row_def)
  moreover have "fst (create_entity_association
            (ex_with [ex_row 1 20 ''contains'' (Some 7), ex_row 2 20 ''includes'' (Some 5)])
            (ex_create 20 ''references'' (Some 7))) = Inl Conflict"
    by (simp add: create_entity_association_def check_existing_cases ex_get_entity
          existing_where_def ex_row_def)
  ultimately show ?thesis by simp
qed

text \<open>
  C8. The duplicate check of \<^verbatim>\<open>create_entity_association\<close> extracts a single row with
  \<^verbatim>\<open>scalar_one_or_none\<close>. The call ends in \<open>MultipleResultsFound\<close>, which is neither
  \<open>NotFound\<close> nor \<open>Conflict\<close>, exactly when both entities resolve and two or more active
  associations of the pair have a null scope or the requested scope; it ends in
  \<open>Conflict\<close> exactly when both entities resolve and one such association exists. There
  is an input of the first kind.
\<close>

theorem create_precheck_multiple_results:
  "(fst (create_entity_association s d) = Inl MultipleResultsFound \<longleftrightarrow>
      \<not> isl (get_entity_by_id s (new_ParentEntityId d))
    \<and> \<not> isl (get_entity_by_id s (new_ChildEntityId d))
    \<and> 2 \<le> length (filter (existing_where (new_ParentEntityId d) (new_ChildEntityId d)
                          (new_ExtendedByDataModelId d)) (EntityAssociations s)))
 \<and> (fst (create_entity_association s d) = Inl Conflict \<longleftrightarrow>
      \<not> isl (get_entity_by_id s (new_ParentEntityId d))
    \<and> \<not> isl (get_entity_by_id s (new_ChildEntityId d))
    \<and> length (filter (existing_where (new_ParentEntityId d) (new_ChildEntityId d)
                      (new_ExtendedByDataModelId d)) (EntityAssociations s)) = 1)
 \<and> (\<exists>s' d'. fst (create_entity_association s' d') = Inl MultipleResultsFound)"
proof -
  have general: "(fst (create_entity_association s d) = Inl MultipleResultsFound \<longleftrightarrow>
      \<not> isl (get_entity_by_id s (new_ParentEntityId d))
    \<and> \<not> isl (get_entity_by_id s (new_ChildEntityId d))
    \<and> 2 \<le> length (filter (existing_where (new_ParentEntityId d) (new_ChildEntityId d)
                          (new_ExtendedByDataModelId d)) (EntityAssociations s)))
   \<and> (fst (create_entity_association s d) = Inl Conflict \<longleftrightarrow>
      \<not> isl (get_entity_by_id s (new_ParentEntityId d))
    \<and> \<not> isl (get_entity_by_id s (new_ChildEntityId d))
    \<and> length (filter (existing_where (new_ParentEntityId d) (new_ChildEntityId d)
                      (new_ExtendedByDataModelId d)) (EntityAssociations s)) = 1)"
  proof (cases "get_entity_by_id s (new_ParentEntityId d)")
    case (Inl e)
    with get_entity_by_id_error [OF Inl] show ?thesis
      by (simp add: create_entity_association_def)
  next
    case p: (Inr p)
    show ?thesis
    proof (cases "get_entity_by_id s (new_ChildEntityId d)")
      case (Inl e)
      with get_entity_by_id_error [OF Inl] p show ?thesis
        by (simp add: create_entity_association_def)
    next
      case c: (Inr c)
      show ?thesis
        by (simp add: create_cases [OF p c] p c Let_def split: list.splits)
    qed
  qed
  have "fst (create_entity_association
               (ex_with [ex_row 1 20 ''contains'' (Some 7), ex_row 2 20 ''references'' None])
               (ex_create 20 ''includes'' (Some 7))) = Inl MultipleResultsFound"
    by (simp add: create_entity_association_def check_existing_cases ex_get_entity
          existing_where_def ex_row_def)
  then have "\<exists>s' d'. fst (create_entity_association s' d') = Inl MultipleResultsFound"
    by blast
  with general show ?thesis by blast
qed

text \<open>
  Such a database is reached through the service: an association of scope 7 is created,
  then one of base scope for the same pair; a third call with scope 7 finds both.
\<close>

theorem create_precheck_multiple_results_witness:
  "create_entity_association ex_session (ex_create 20 ''contains'' (Some 7))
     = (Inr (ex_row 1 20 ''contains'' (Some 7)), ex_with [ex_row 1 20 ''contains'' (Some 7)])
   \<and> create_entity_association (ex_with [ex_row 1 20 ''contains'' (Some 7)])
       (ex_create 20 ''references'' None)
     = (Inr (ex_row 2 20 ''references'' None),
        ex_with [ex_row 1 20 ''contains'' (Some 7), ex_row 2 20 ''references'' None])
   \<and> fst (create_entity_association
            (ex_with [ex_row 1 20 ''contains'' (Some 7), ex_row 2 20 ''references'' None])
            (ex_create 20 ''includes'' (Some 7))) = Inl MultipleResultsFound
   \<and> fst (create_entity_association
            (ex_with [ex_row 1 20 ''contains'' (Some 7), ex_row 2 20 ''references'' None])
            (ex_create 20 ''includes'' (Some 7))) \<noteq> Inl Conflict"
proof -
  have one: "create_entity_association ex_session (ex_create 20 ''contains'' (Some 7))
     = (Inr (ex_row 1 20 ''contains'' (Some 7)), ex_with [ex_row 1 20 ''contains'' (Some 7)])"
    using ex_create_eval [of 20 "Some 7" "[]" "''contains''"] by (simp add: ex_session_with)
  have two: "create_entity_association (ex_with [ex_row 1 20 ''contains'' (Some 7)])
       (ex_create 20 ''references'' None)
     = (Inr (ex_row 2 20 ''references'' None),
        ex_with [ex_row 1 20 ''contains'' (Some 7), ex_row 2 20 ''references'' None])"
    by (simp add: ex_create_eval existing_where_def ex_row_def)
  have "fst (create_entity_association
            (ex_with [ex_row 1 20 ''contains'' (Some 7), ex_row 2 20 ''references'' None])
            (ex_create 20 ''includes'' (Some 7))) = Inl MultipleResultsFound"
    using create_precheck_multiple_results
            [of "ex_with [ex_row 1 20 ''contains'' (Some 7), ex_row 2 20 ''references'' None]"
                "ex_create 20 ''includes'' (Some 7)"]
    by (simp add: ex_get_entity existing_where_def ex_row_def)
  with one two show ?thesis by simp
qed

subsection \<open>Auxiliary facts about rows and their ids\<close>

lemma find_by_id_Some:
  "find (\<lambda>a. Assoc_Id a = i) rows = Some a \<Longrightarrow> Assoc_Id a = i \<and> a \<in> set rows"
  by (auto simp: find_Some_iff)

lemma get_association_cases:
  "get_entity_association_by_id s i = Inr a \<longleftrightarrow>
     find (\<lambda>a. Assoc_Id a = i) (EntityAssociations s) = Some a \<and> \<not> Deleted a"
proof (cases "find (\<lambda>a. Assoc_Id a = i) (EntityAssociations s)")
  case None
  then show ?thesis by (simp add: get_entity_association_by_id_def)
next
  case (Some b)
  then show ?thesis by (auto simp: get_entity_association_by_id_def)
qed

lemma get_association_error: "get_entity_association_by_id s i = Inl e \<Longrightarrow> e = NotFound"
  by (auto simp: get_entity_association_by_id_def split: option.splits if_splits)

lemma get_association_id: "get_entity_association_by_id s i = Inr a \<Longrightarrow> Assoc_Id a = i"
  unfolding get_association_cases by (blast dest: find_by_id_Some)

lemma check_entity_by_id_error: "check_entity_by_id s i = Inl e \<Longrightarrow> e = NotFound"
  by (auto simp: check_entity_by_id_def split: option.splits if_splits)

lemma check_if_given_error: "check_if_given s v = Some e \<Longrightarrow> e = NotFound"
  by (cases v) (auto split: if_splits sum.splits dest: check_entity_by_id_error)

lemma find_store_other:
  "i \<noteq> Assoc_Id row \<Longrightarrow>
   find (\<lambda>a. Assoc_Id a = i) (map (\<lambda>b. if Assoc_Id b = Assoc_Id row then row else b) rows)
     = find (\<lambda>a. Assoc_Id a = i) rows"
  by (induction rows) auto

lemma find_store_same:
  "find (\<lambda>a. Assoc_Id a = Assoc_Id row)
        (map (\<lambda>b. if Assoc_Id b = Assoc_Id row then row else b) rows)
     = map_option (\<lambda>_. row) (find (\<lambda>a. Assoc_Id a = Assoc_Id row) rows)"
  by (induction rows) auto

lemma find_remove_other:
  "i \<noteq> j \<Longrightarrow>
   find (\<lambda>a. Assoc_Id a = i) (filter (\<lambda>b. Assoc_Id b \<noteq> j) rows)
     = find (\<lambda>a. Assoc_Id a = i) rows"
  by (induction rows) auto

lemma find_append_Some:
  "find P xs = Some a \<Longrightarrow> find P (xs @ ys) = Some a"
  by (induction xs) (auto split: if_splits)

lemma Assoc_Id_setattrs [simp]: "Assoc_Id (setattrs dto a) = Assoc_Id a"
  by (simp add: setattrs_def)

lemma Deleted_setattrs [simp]: "Deleted (setattrs dto a) = Deleted a"
  by (simp add: setattrs_def)

lemma update_cases:
  assumes "get_entity_association_by_id s i = Inr a"
  shows "update_entity_association s i dto =
     (case check_if_given s (attr (upd_ParentEntityId dto)) of
        Some e \<Rightarrow> (Inl e, s)
      | None \<Rightarrow>
     (case check_if_given s (attr (upd_ChildEntityId dto)) of
        Some e \<Rightarrow> (Inl e, s)
      | None \<Rightarrow>
         if duplicate_check s i dto a
         then (Inl Conflict, s)
         else (Inr (setattrs dto a), store_row s (setattrs dto a))))"
  unfolding update_entity_association_def assms sum.case Let_def from_orm_def
  by (rule refl)

lemma first_filter_None: "first (filter P xs) = None \<longleftrightarrow> (\<forall>x \<in> set xs. \<not> P x)"
  by (induction xs) (auto simp: first_def)

lemma first_filter_Some: "first (filter P xs) = Some x \<Longrightarrow> x \<in> set xs \<and> P x"
  by (induction xs) (auto simp: first_def split: if_splits)

lemma update_success:
  assumes "update_entity_association s i dto = (Inr updated, s')"
  obtains old where "get_entity_association_by_id s i = Inr old"
    and "updated = setattrs dto old" and "s' = store_row s updated"
proof (cases "get_entity_association_by_id s i")
  case (Inl e)
  with assms show ?thesis by (simp add: update_entity_association_def)
next
  case (Inr old)
  from assms have "updated = setattrs dto old \<and> s' = store_row s updated"
    unfolding update_cases [OF Inr]
    by (auto split: option.splits if_splits)
  with Inr that show ?thesis by blast
qed

lemma EntityAssociations_store_row [simp]:
  "EntityAssociations (store_row s row)
     = map (\<lambda>a. if Assoc_Id a = Assoc_Id row then row else a) (EntityAssociations s)"
  by (simp add: store_row_def)

lemma EntityAssociations_remove_row [simp]:
  "EntityAssociations (remove_row s row)
     = filter (\<lambda>a. Assoc_Id a \<noteq> Assoc_Id row) (EntityAssociations s)"
  by (simp add: remove_row_def)

lemma other_tables_store_row [simp]:
  "Entities (store_row s row) = Entities s"
  "DataModels (store_row s row) = DataModels s"
  "ExtInclusions (store_row s row) = ExtInclusions s"
  "next_Id (store_row s row) = next_Id s"
  by (simp_all add: store_row_def)

lemma get_deleted_not_found:
  "find (\<lambda>a. Assoc_Id a = i) (EntityAssociations s) = Some a \<Longrightarrow> Deleted a \<Longrightarrow>
   get_entity_association_by_id s i = Inl NotFound"
  by (simp add: get_entity_association_by_id_def)

lemma delete_cases:
  "delete_entity_association s i =
     (case get_entity_association_by_id s i of
        Inl e \<Rightarrow> (Inl e, s) | Inr a \<Rightarrow> (Inr (), remove_row s a))"
  by (simp add: delete_entity_association_def)

lemma soft_delete_success:
  assumes "soft_delete_entity_association s i = (Inr (), s')"
  obtains old where "get_entity_association_by_id s i = Inr old"
    and "s' = store_row s (old\<lparr> Deleted := True \<rparr>)"
  using assms
  by (auto simp: soft_delete_entity_association_def split: sum.splits)

lemma soft_delete_marks:
  assumes "soft_delete_entity_association s i = (Inr (), s')"
  obtains old where "get_entity_association_by_id s i = Inr old"
    and "find (\<lambda>a. Assoc_Id a = i) (EntityAssociations s') = Some (old\<lparr> Deleted := True \<rparr>)"
proof -
  from assms obtain old where
      old: "get_entity_association_by_id s i = Inr old"
    and s': "s' = store_row s (old\<lparr> Deleted := True \<rparr>)"
    by (rule soft_delete_success)
  from old have found: "find (\<lambda>a. Assoc_Id a = i) (EntityAssociations s) = Some old"
    and id: "Assoc_Id old = i"
    by (simp_all add: get_association_cases get_association_id [OF old])
  have "find (\<lambda>a. Assoc_Id a = i) (EntityAssociations s') = Some (old\<lparr> Deleted := True \<rparr>)"
    using find_store_same [of "old\<lparr> Deleted := True \<rparr>" "EntityAssociations s"] found
    by (simp add: s' id)
  with old that show ?thesis by blast
qed

lemma perform_keeps_deleted:
  assumes found: "find (\<lambda>a. Assoc_Id a = i) (EntityAssociations s) = Some a"
      and deleted: "Deleted a"
  shows "find (\<lambda>a. Assoc_Id a = i) (EntityAssociations (perform s r)) = Some a"
proof (cases r)
  case (Create data)
  have "snd (create_entity_association s data) = s
        \<or> (\<exists>row. snd (create_entity_association s data) = insert_row s row)"
    by (auto simp: create_entity_association_def Let_def split: sum.splits)
  then show ?thesis
    using found by (auto simp: Create find_append_Some)
next
  case (Update j dto)
  show ?thesis
  proof (cases "get_entity_association_by_id s j")
    case (Inl e)
    then show ?thesis using found by (simp add: Update update_entity_association_def)
  next
    case (Inr b)
    with get_deleted_not_found [OF found deleted] have "j \<noteq> i" by auto
    with get_association_id [OF Inr] have neq: "i \<noteq> Assoc_Id (setattrs dto b)" by simp
    have "snd (update_entity_association s j dto) = s
          \<or> snd (update_entity_association s j dto) = store_row s (setattrs dto b)"
      unfolding update_cases [OF Inr] by (simp split: option.splits)
    then show ?thesis
      using found find_store_other [OF neq] by (auto simp: Update)
  qed
next
  case (Delete j)
  show ?thesis
  proof (cases "get_entity_association_by_id s j")
    case (Inl e)
    then show ?thesis using found by (simp add: Delete delete_cases)
  next
    case (Inr b)
    with get_deleted_not_found [OF found deleted] have "j \<noteq> i" by auto
    with get_association_id [OF Inr] have "i \<noteq> Assoc_Id b" by simp
    then show ?thesis
      using found by (simp add: Delete delete_cases Inr find_remove_other)
  qed
next
  case (SoftDelete j)
  show ?thesis
  proof (cases "get_entity_association_by_id s j")
    case (Inl e)
    then show ?thesis using found by (simp add: SoftDelete soft_delete_entity_association_def)
  next
    case (Inr b)
    with get_deleted_not_found [OF found deleted] have "j \<noteq> i" by auto
    with get_association_id [OF Inr] have neq: "i \<noteq> Assoc_Id (b\<lparr> Deleted := True \<rparr>)" by simp
    show ?thesis
      using found find_store_other [OF neq]
      by (simp add: SoftDelete soft_delete_entity_association_def Inr)
  qed
qed

lemma foldl_perform_keeps_deleted:
  "find (\<lambda>a. Assoc_Id a = i) (EntityAssociations s) = Some a \<Longrightarrow> Deleted a \<Longrightarrow>
   find (\<lambda>a. Assoc_Id a = i) (EntityAssociations (foldl perform s requests)) = Some a"
  by (induction requests arbitrary: s) (simp_all add: perform_keeps_deleted)

lemma deleted_operations_fail:
  assumes found: "find (\<lambda>a. Assoc_Id a = i) (EntityAssociations s) = Some a"
      and deleted: "Deleted a"
  shows "get_entity_association_by_id s i = Inl NotFound"
    and "update_entity_association s i dto = (Inl NotFound, s)"
    and "delete_entity_association s i = (Inl NotFound, s)"
    and "soft_delete_entity_association s i = (Inl NotFound, s)"
  using get_deleted_not_found [OF found deleted]
  by (simp_all add: update_entity_association_def delete_entity_association_def
        soft_delete_entity_association_def)

lemma map_from_orm: "map from_orm rows = rows"
  by (induction rows) (simp_all add: from_orm_def)

text \<open>
  The listing of a base model has the same rows whatever the ranking of the engine: each
  active association of base scope whose parent or child entity belongs to the data
  model, once.
\<close>

lemma base_model_listing_rows:
  assumes "check_datamodel_by_id s data_model_id = Inr data_model"
      and "DataModel_Type data_model \<noteq> OrgLIF" and "DataModel_Type data_model \<noteq> PartnerLIF"
  shows "\<exists>listed. get_entity_associations_by_data_model_id s data_model_id = Inr listed
           \<and> distinct listed
           \<and> set listed =
               {a \<in> set (EntityAssociations s).
                  Deleted a = False \<and> ExtendedByDataModelId a = None
                  \<and> (\<exists>e \<in> set (Entities s).
                        Entity_DataModelId e = data_model_id
                        \<and> (Entity_Id e = ParentEntityId a \<or> Entity_Id e = ChildEntityId a))}"
  using assms
  by (auto simp: get_entity_associations_by_data_model_id_def map_from_orm Let_def)

text \<open>The operations on the small repository, evaluated.\<close>

lemmas ex_eval =
  update_entity_association_def get_entity_association_by_id_def duplicate_check_def
  get_entity_association_by_parent_child_relationship_def duplicate_where_def first_def
  check_entity_by_id_def setattrs_def store_row_def from_orm_def str_or_else_def
  scope_or_else_def Let_def

subsection \<open>Update: the duplicate check\<close>

text \<open>
  C2, as the code has it. Let the association under update exist and not be deleted.
  If the partial update carries neither a parent nor a child entity id that is true as a
  Python value, the duplicate check is skipped and the update succeeds: this is so for a
  change of \<^verbatim>\<open>Placement\<close>, and also for a change of the relationship or of the scope
  alone. If it carries one, and the entities given resolve, the tuple looked for takes
  each of parent, child, relationship and scope from the partial update when the value
  there is true as a Python value and from the stored row otherwise; the update fails
  with \<open>Conflict\<close> and leaves the database as it is whenever an active association has
  that parent, child and relationship and a scope that is null or that scope, and none
  of the associations matching has the id under update. A \<open>Conflict\<close> arises only when
  an endpoint is given and an active association with another id matches.
\<close>

theorem update_duplicate_check:
  assumes found: "get_entity_association_by_id s association_id = Inr entity_association"
  shows "(\<not> truthy_int (attr (upd_ParentEntityId dto))
          \<and> \<not> truthy_int (attr (upd_ChildEntityId dto))
          \<longrightarrow> update_entity_association s association_id dto
                = (Inr (setattrs dto entity_association),
                   store_row s (setattrs dto entity_association)))
       \<and> ((truthy_int (attr (upd_ParentEntityId dto)) \<or> truthy_int (attr (upd_ChildEntityId dto)))
          \<and> check_if_given s (attr (upd_ParentEntityId dto)) = None
          \<and> check_if_given s (attr (upd_ChildEntityId dto)) = None
          \<and> (\<exists>a \<in> set (EntityAssociations s).
                duplicate_where
                  (int_or_else (attr (upd_ParentEntityId dto)) (ParentEntityId entity_association))
                  (int_or_else (attr (upd_ChildEntityId dto)) (ChildEntityId entity_association))
                  (str_or_else (attr_opt (upd_Relationship dto)) (Relationship entity_association))
                  (scope_or_else (attr_opt (upd_ExtendedByDataModelId dto))
                     (ExtendedByDataModelId entity_association)) a)
          \<and> (\<forall>a \<in> set (EntityAssociations s).
                duplicate_where
                  (int_or_else (attr (upd_ParentEntityId dto)) (ParentEntityId entity_association))
                  (int_or_else (attr (upd_ChildEntityId dto)) (ChildEntityId entity_association))
                  (str_or_else (attr_opt (upd_Relationship dto)) (Relationship entity_association))
                  (scope_or_else (attr_opt (upd_ExtendedByDataModelId dto))
                     (ExtendedByDataModelId entity_association)) a
                \<longrightarrow> Assoc_Id a \<noteq> association_id)
          \<longrightarrow> update_entity_association s association_id dto = (Inl Conflict, s))
       \<and> (fst (update_entity_association s association_id dto) = Inl Conflict
          \<longrightarrow> (truthy_int (attr (upd_ParentEntityId dto))
               \<or> truthy_int (attr (upd_ChildEntityId dto)))
            \<and> (\<exists>a \<in> set (EntityAssociations s).
                duplicate_where
                  (int_or_else (attr (upd_ParentEntityId dto)) (ParentEntityId entity_association))
                  (int_or_else (attr (upd_ChildEntityId dto)) (ChildEntityId entity_association))
                  (str_or_else (attr_opt (upd_Relationship dto)) (Relationship entity_association))
                  (scope_or_else (attr_opt (upd_ExtendedByDataModelId dto))
                     (ExtendedByDataModelId entity_association)) a
                \<and> Assoc_Id a \<noteq> association_id))"
proof -
  let ?P = "duplicate_where
              (int_or_else (attr (upd_ParentEntityId dto)) (ParentEntityId entity_association))
              (int_or_else (attr (upd_ChildEntityId dto)) (ChildEntityId entity_association))
              (str_or_else (attr_opt (upd_Relationship dto)) (Relationship entity_association))
              (scope_or_else (attr_opt (upd_ExtendedByDataModelId dto))
                 (ExtendedByDataModelId entity_association))"
  let ?given = "truthy_int (attr (upd_ParentEntityId dto))
                \<or> truthy_int (attr (upd_ChildEntityId dto))"
  have check: "duplicate_check s association_id dto entity_association \<longleftrightarrow>
        ?given \<and> (case first (filter ?P (EntityAssociations s)) of
                     None \<Rightarrow> False | Some x \<Rightarrow> Assoc_Id x \<noteq> association_id)"
    by (simp add: duplicate_check_def get_entity_association_by_parent_child_relationship_def
          Let_def)
  have skip: "\<not> ?given \<Longrightarrow> check_if_given s (attr (upd_ParentEntityId dto)) = None
                        \<and> check_if_given s (attr (upd_ChildEntityId dto)) = None"
    by (cases "upd_ParentEntityId dto"; cases "upd_ChildEntityId dto") simp_all
  have part1: "\<not> ?given \<Longrightarrow> update_entity_association s association_id dto
                = (Inr (setattrs dto entity_association),
                   store_row s (setattrs dto entity_association))"
    using skip by (simp add: update_cases [OF found] check)
  have part2: "update_entity_association s association_id dto = (Inl Conflict, s)"
    if given: ?given
      and parent: "check_if_given s (attr (upd_ParentEntityId dto)) = None"
      and child: "check_if_given s (attr (upd_ChildEntityId dto)) = None"
      and ex: "\<exists>a \<in> set (EntityAssociations s). ?P a"
      and other: "\<forall>a \<in> set (EntityAssociations s). ?P a \<longrightarrow> Assoc_Id a \<noteq> association_id"
  proof -
    from ex obtain x where x: "first (filter ?P (EntityAssociations s)) = Some x"
      using first_filter_None [of ?P "EntityAssociations s"] by (cases "first (filter ?P (EntityAssociations s))") auto
    from first_filter_Some [OF x] other have "Assoc_Id x \<noteq> association_id" by blast
    with x given have "duplicate_check s association_id dto entity_association"
      by (simp add: check)
    then show ?thesis
      by (simp add: update_cases [OF found] parent child)
  qed
  have part3: "?given \<and> (\<exists>a \<in> set (EntityAssociations s). ?P a \<and> Assoc_Id a \<noteq> association_id)"
    if "fst (update_entity_association s association_id dto) = Inl Conflict"
  proof -
    from that have "duplicate_check s association_id dto entity_association"
      unfolding update_cases [OF found]
      by (auto split: option.splits if_splits dest: check_if_given_error)
    then obtain x where "?given" and x: "first (filter ?P (EntityAssociations s)) = Some x"
        and "Assoc_Id x \<noteq> association_id"
      unfolding check by (auto split: option.splits)
    with first_filter_Some [OF x] show ?thesis by blast
  qed
  show ?thesis
  proof (intro conjI impI)
    assume "\<not> truthy_int (attr (upd_ParentEntityId dto))
          \<and> \<not> truthy_int (attr (upd_ChildEntityId dto))"
    then have "\<not> ?given" by blast
    then show "update_entity_association s association_id dto
                = (Inr (setattrs dto entity_association),
                   store_row s (setattrs dto entity_association))"
      by (rule part1)
  next
    assume h: "?given
          \<and> check_if_given s (attr (upd_ParentEntityId dto)) = None
          \<and> check_if_given s (attr (upd_ChildEntityId dto)) = None
          \<and> (\<exists>a \<in> set (EntityAssociations s). ?P a)
          \<and> (\<forall>a \<in> set (EntityAssociations s). ?P a \<longrightarrow> Assoc_Id a \<noteq> association_id)"
    show "update_entity_association s association_id dto = (Inl Conflict, s)"
      by (rule part2) (use h in blast)+
  next
    assume "fst (update_entity_association s association_id dto) = Inl Conflict"
    from part3 [OF this] show "?given" ..
  next
    assume "fst (update_entity_association s association_id dto) = Inl Conflict"
    from part3 [OF this]
    show "\<exists>a \<in> set (EntityAssociations s). ?P a \<and> Assoc_Id a \<noteq> association_id" ..
  qed
qed

text \<open>
  The two associations of the specification's example, ids 1 and 2, between entities 10
  and 20. Moving association 2 onto the relationship of association 1 together with its
  child id is a \<open>Conflict\<close>; changing its \<^verbatim>\<open>Placement\<close> succeeds.
\<close>

theorem update_duplicate_check_witness:
  "update_entity_association
      (ex_with [ex_row 1 20 ''contains'' None, ex_row 2 20 ''references'' None]) 2
      (no_change\<lparr> upd_ChildEntityId := Assigned 20,
                  upd_Relationship := Assigned (Some ''contains'') \<rparr>)
     = (Inl Conflict, ex_with [ex_row 1 20 ''contains'' None, ex_row 2 20 ''references'' None])
   \<and> update_entity_association
      (ex_with [ex_row 1 20 ''contains'' None, ex_row 2 20 ''references'' None]) 2
      (no_change\<lparr> upd_Placement := Assigned (Some ''top'') \<rparr>)
     = (Inr ((ex_row 2 20 ''references'' None)\<lparr> Placement := Some ''top'' \<rparr>),
        ex_with [ex_row 1 20 ''contains'' None,
                 (ex_row 2 20 ''references'' None)\<lparr> Placement := Some ''top'' \<rparr>])"
proof -
  let ?s = "ex_with [ex_row 1 20 ''contains'' None, ex_row 2 20 ''references'' None]"
  have found: "get_entity_association_by_id ?s 2 = Inr (ex_row 2 20 ''references'' None)"
    by (simp add: get_entity_association_by_id_def ex_row_def)
  have "update_entity_association ?s 2
          (no_change\<lparr> upd_ChildEntityId := Assigned 20,
                      upd_Relationship := Assigned (Some ''contains'') \<rparr>)
        = (Inl Conflict, ?s)"
    using update_duplicate_check [OF found,
            of "no_change\<lparr> upd_ChildEntityId := Assigned 20,
                            upd_Relationship := Assigned (Some ''contains'') \<rparr>"]
    by (simp add: no_change_def check_entity_by_id_def ex_session_def ex_entities_def
          ex_with_def ex_row_def duplicate_where_def str_or_else_def scope_or_else_def)
  moreover have "update_entity_association ?s 2
          (no_change\<lparr> upd_Placement := Assigned (Some ''top'') \<rparr>)
        = (Inr ((ex_row 2 20 ''references'' None)\<lparr> Placement := Some ''top'' \<rparr>),
           ex_with [ex_row 1 20 ''contains'' None,
                    (ex_row 2 20 ''references'' None)\<lparr> Placement := Some ''top'' \<rparr>])"
    using update_duplicate_check [OF found,
            of "no_change\<lparr> upd_Placement := Assigned (Some ''top'') \<rparr>"]
    by (simp add: no_change_def setattrs_def store_row_def ex_with_def ex_row_def)
  ultimately show ?thesis by simp
qed

text \<open>
  C2 as stated fails on the example of the specification: association 1 is an active
  association of entities 10 and 20 with relationship \<open>contains\<close> and a null scope, and
  the update of association 2 that changes only its relationship to \<open>contains\<close> is not a
  \<open>Conflict\<close>; it succeeds and leaves two associations with the same tuple.
\<close>

theorem update_relationship_only_counterexample:
  "get_entity_association_by_id
      (ex_with [ex_row 1 20 ''contains'' None, ex_row 2 20 ''references'' None]) 1
     = Inr (ex_row 1 20 ''contains'' None)
   \<and> get_entity_association_by_id
      (ex_with [ex_row 1 20 ''contains'' None, ex_row 2 20 ''references'' None]) 2
     = Inr (ex_row 2 20 ''references'' None)
   \<and> duplicate_where 10 20 (Some ''contains'') None (ex_row 1 20 ''contains'' None)
   \<and> update_entity_association
      (ex_with [ex_row 1 20 ''contains'' None, ex_row 2 20 ''references'' None]) 2
      (no_change\<lparr> upd_Relationship := Assigned (Some ''contains'') \<rparr>)
     = (Inr (ex_row 2 20 ''contains'' None),
        ex_with [ex_row 1 20 ''contains'' None, ex_row 2 20 ''contains'' None])
   \<and> fst (update_entity_association
      (ex_with [ex_row 1 20 ''contains'' None, ex_row 2 20 ''references'' None]) 2
      (no_change\<lparr> upd_Relationship := Assigned (Some ''contains'') \<rparr>)) \<noteq> Inl Conflict"
  by (simp add: ex_eval no_change_def ex_with_def ex_row_def)

subsection \<open>Update: partial assignment\<close>

text \<open>
  C6. When \<^verbatim>\<open>update_entity_association\<close> succeeds, the association existed and was not
  deleted, the row returned is the row stored under the same id, every field that the
  partial update sets has the value given there, every field that it does not set has
  the value it had before (the id and the \<^verbatim>\<open>Deleted\<close> flag are never touched), and the
  row of every other id is as it was.
\<close>

theorem update_partial:
  assumes "update_entity_association s association_id dto = (Inr updated, s')"
  shows "\<exists>old. get_entity_association_by_id s association_id = Inr old
     \<and> get_entity_association_by_id s' association_id = Inr updated
     \<and> Assoc_Id updated = Assoc_Id old
     \<and> Deleted updated = Deleted old
     \<and> ParentEntityId updated
         = (case upd_ParentEntityId dto of Unset \<Rightarrow> ParentEntityId old | Assigned v \<Rightarrow> v)
     \<and> ChildEntityId updated
         = (case upd_ChildEntityId dto of Unset \<Rightarrow> ChildEntityId old | Assigned v \<Rightarrow> v)
     \<and> Relationship updated
         = (case upd_Relationship dto of Unset \<Rightarrow> Relationship old | Assigned v \<Rightarrow> v)
     \<and> Placement updated
         = (case upd_Placement dto of Unset \<Rightarrow> Placement old | Assigned v \<Rightarrow> v)
     \<and> Notes updated
         = (case upd_Notes dto of Unset \<Rightarrow> Notes old | Assigned v \<Rightarrow> v)
     \<and> CreationDate updated
         = (case upd_CreationDate dto of Unset \<Rightarrow> CreationDate old | Assigned v \<Rightarrow> v)
     \<and> ActivationDate updated
         = (case upd_ActivationDate dto of Unset \<Rightarrow> ActivationDate old | Assigned v \<Rightarrow> v)
     \<and> DeprecationDate updated
         = (case upd_DeprecationDate dto of Unset \<Rightarrow> DeprecationDate old | Assigned v \<Rightarrow> v)
     \<and> Contributor updated
         = (case upd_Contributor dto of Unset \<Rightarrow> Contributor old | Assigned v \<Rightarrow> v)
     \<and> ContributorOrganization updated
         = (case upd_ContributorOrganization dto of
              Unset \<Rightarrow> ContributorOrganization old | Assigned v \<Rightarrow> v)
     \<and> Extension updated
         = (case upd_Extension dto of Unset \<Rightarrow> Extension old | Assigned v \<Rightarrow> v)
     \<and> ExtendedByDataModelId updated
         = (case upd_ExtendedByDataModelId dto of
              Unset \<Rightarrow> ExtendedByDataModelId old | Assigned v \<Rightarrow> v)
     \<and> (\<forall>i. i \<noteq> association_id \<longrightarrow>
            find (\<lambda>a. Assoc_Id a = i) (EntityAssociations s')
              = find (\<lambda>a. Assoc_Id a = i) (EntityAssociations s))"
proof -
  from assms obtain old where
      old: "get_entity_association_by_id s association_id = Inr old"
    and updated: "updated = setattrs dto old"
    and s': "s' = store_row s updated"
    by (rule update_success)
  have id: "Assoc_Id updated = association_id"
    using get_association_id [OF old] by (simp add: updated)
  from old have found: "find (\<lambda>a. Assoc_Id a = association_id) (EntityAssociations s) = Some old"
    and live: "\<not> Deleted old"
    by (simp_all add: get_association_cases)
  have "find (\<lambda>a. Assoc_Id a = association_id) (EntityAssociations s') = Some updated"
    using find_store_same [of updated "EntityAssociations s"] found
    by (simp add: s' id)
  then have stored: "get_entity_association_by_id s' association_id = Inr updated"
    using live by (simp add: get_association_cases updated)
  have others: "\<forall>i. i \<noteq> association_id \<longrightarrow>
            find (\<lambda>a. Assoc_Id a = i) (EntityAssociations s')
              = find (\<lambda>a. Assoc_Id a = i) (EntityAssociations s)"
    using find_store_other [of _ updated "EntityAssociations s"] by (simp add: s' id)
  have assign_case: "\<And>p old. assign p old = (case p of Unset \<Rightarrow> old | Assigned v \<Rightarrow> v)"
    by (simp split: patch.split)
  have fields:
    "Assoc_Id updated = Assoc_Id old"
    "Deleted updated = Deleted old"
    "ParentEntityId updated
         = (case upd_ParentEntityId dto of Unset \<Rightarrow> ParentEntityId old | Assigned v \<Rightarrow> v)"
    "ChildEntityId updated
         = (case upd_ChildEntityId dto of Unset \<Rightarrow> ChildEntityId old | Assigned v \<Rightarrow> v)"
    "Relationship updated
         = (case upd_Relationship dto of Unset \<Rightarrow> Relationship old | Assigned v \<Rightarrow> v)"
    "Placement updated
         = (case upd_Placement dto of Unset \<Rightarrow> Placement old | Assigned v \<Rightarrow> v)"
    "Notes updated
         = (case upd_Notes dto of Unset \<Rightarrow> Notes old | Assigned v \<Rightarrow> v)"
    "CreationDate updated
         = (case upd_CreationDate dto of Unset \<Rightarrow> CreationDate old | Assigned v \<Rightarrow> v)"
    "ActivationDate updated
         = (case upd_ActivationDate dto of Unset \<Rightarrow> ActivationDate old | Assigned v \<Rightarrow> v)"
    "DeprecationDate updated
         = (case upd_DeprecationDate dto of Unset \<Rightarrow> DeprecationDate old | Assigned v \<Rightarrow> v)"
    "Contributor updated
         = (case upd_Contributor dto of Unset \<Rightarrow> Contributor old | Assigned v \<Rightarrow> v)"
    "ContributorOrganization updated
         = (case upd_ContributorOrganization dto of
              Unset \<Rightarrow> ContributorOrganization old | Assigned v \<Rightarrow> v)"
    "Extension updated
         = (case upd_Extension dto of Unset \<Rightarrow> Extension old | Assigned v \<Rightarrow> v)"
    "ExtendedByDataModelId updated
         = (case upd_ExtendedByDataModelId dto of
              Unset \<Rightarrow> ExtendedByDataModelId old | Assigned v \<Rightarrow> v)"
    by (simp_all add: updated setattrs_def assign_case)
  show ?thesis
    by (rule exI [of _ old]) (intro conjI old stored fields others)
qed

text \<open>The example of the specification: only \<^verbatim>\<open>Notes\<close> is set.\<close>

theorem update_partial_witness:
  "update_entity_association
      (ex_with [ex_row 1 20 ''contains'' None, ex_row 2 20 ''references'' None]) 2
      (no_change\<lparr> upd_Notes := Assigned (Some ''x'') \<rparr>)
     = (Inr ((ex_row 2 20 ''references'' None)\<lparr> Notes := Some ''x'' \<rparr>),
        ex_with [ex_row 1 20 ''contains'' None,
                 (ex_row 2 20 ''references'' None)\<lparr> Notes := Some ''x'' \<rparr>])
   \<and> get_entity_association_by_id
        (ex_with [ex_row 1 20 ''contains'' None,
                  (ex_row 2 20 ''references'' None)\<lparr> Notes := Some ''x'' \<rparr>]) 2
     = Inr ((ex_row 2 20 ''references'' None)\<lparr> Notes := Some ''x'' \<rparr>)
   \<and> find (\<lambda>a. Assoc_Id a = 1)
        (EntityAssociations
           (ex_with [ex_row 1 20 ''contains'' None,
                     (ex_row 2 20 ''references'' None)\<lparr> Notes := Some ''x'' \<rparr>]))
     = Some (ex_row 1 20 ''contains'' None)"
proof -
  let ?s = "ex_with [ex_row 1 20 ''contains'' None, ex_row 2 20 ''references'' None]"
  let ?s' = "ex_with [ex_row 1 20 ''contains'' None,
                      (ex_row 2 20 ''references'' None)\<lparr> Notes := Some ''x'' \<rparr>]"
  have updated: "update_entity_association ?s 2 (no_change\<lparr> upd_Notes := Assigned (Some ''x'') \<rparr>)
     = (Inr ((ex_row 2 20 ''references'' None)\<lparr> Notes := Some ''x'' \<rparr>), ?s')"
    by (simp add: ex_eval no_change_def ex_with_def ex_row_def)
  from update_partial [OF updated] obtain old where
      "get_entity_association_by_id ?s' 2
         = Inr ((ex_row 2 20 ''references'' None)\<lparr> Notes := Some ''x'' \<rparr>)"
    and "\<forall>i. i \<noteq> 2 \<longrightarrow>
            find (\<lambda>a. Assoc_Id a = i) (EntityAssociations ?s')
              = find (\<lambda>a. Assoc_Id a = i) (EntityAssociations ?s)"
    by blast
  then have "get_entity_association_by_id ?s' 2
         = Inr ((ex_row 2 20 ''references'' None)\<lparr> Notes := Some ''x'' \<rparr>)"
    and "find (\<lambda>a. Assoc_Id a = 1) (EntityAssociations ?s')
         = Some (ex_row 1 20 ''contains'' None)"
    by (simp_all add: ex_row_def)
  with updated show ?thesis by simp
qed

subsection \<open>Update: failures\<close>

text \<open>
  C9. When \<^verbatim>\<open>update_entity_association\<close> fails, the failure is \<open>NotFound\<close> or \<open>Conflict\<close>,
  and the database it leaves behind is the database it was given: every check comes
  before the first assignment to the row.
\<close>

theorem update_failure_leaves_database:
  assumes "fst (update_entity_association s association_id dto) = Inl e"
  shows "snd (update_entity_association s association_id dto) = s
         \<and> (e = NotFound \<or> e = Conflict)"
proof (cases "get_entity_association_by_id s association_id")
  case (Inl e')
  with assms get_association_error [OF Inl] show ?thesis
    by (simp add: update_entity_association_def)
next
  case (Inr a)
  from assms show ?thesis
    unfolding update_cases [OF Inr]
    by (auto split: option.splits if_splits dest: check_if_given_error)
qed

text \<open>The update that is a \<open>Conflict\<close> leaves both associations as they were.\<close>

theorem update_failure_leaves_database_witness:
  "fst (update_entity_association
          (ex_with [ex_row 1 20 ''contains'' None, ex_row 2 20 ''references'' None]) 2
          (no_change\<lparr> upd_ChildEntityId := Assigned 20,
                      upd_Relationship := Assigned (Some ''contains''),
                      upd_Notes := Assigned (Some ''x'') \<rparr>)) = Inl Conflict
   \<and> snd (update_entity_association
          (ex_with [ex_row 1 20 ''contains'' None, ex_row 2 20 ''references'' None]) 2
          (no_change\<lparr> upd_ChildEntityId := Assigned 20,
                      upd_Relationship := Assigned (Some ''contains''),
                      upd_Notes := Assigned (Some ''x'') \<rparr>))
     = ex_with [ex_row 1 20 ''contains'' None, ex_row 2 20 ''references'' None]"
proof -
  have failed: "fst (update_entity_association
          (ex_with [ex_row 1 20 ''contains'' None, ex_row 2 20 ''references'' None]) 2
          (no_change\<lparr> upd_ChildEntityId := Assigned 20,
                      upd_Relationship := Assigned (Some ''contains''),
                      upd_Notes := Assigned (Some ''x'') \<rparr>)) = Inl Conflict"
    by (simp add: ex_eval no_change_def ex_defs)
  from update_failure_leaves_database [OF failed] failed show ?thesis by simp
qed

subsection \<open>Soft-deleted associations\<close>

text \<open>
  C10. Once the row of an id has its \<^verbatim>\<open>Deleted\<close> flag set, it stays in the table with the
  flag set through every sequence of create, update, delete and soft-delete requests, and
  in every database so reached reading, updating, deleting and soft-deleting that id fail
  with \<open>NotFound\<close> and change nothing: the row can never be removed through the service.
  In particular, after a soft delete has succeeded, a second soft delete and a hard
  delete of the same id fail with \<open>NotFound\<close>.
\<close>

theorem deleted_association_not_found:
  "(find (\<lambda>a. Assoc_Id a = association_id) (EntityAssociations s) = Some a \<and> Deleted a
     \<longrightarrow> find (\<lambda>a. Assoc_Id a = association_id)
              (EntityAssociations (foldl perform s requests)) = Some a
       \<and> get_entity_association_by_id (foldl perform s requests) association_id = Inl NotFound
       \<and> update_entity_association (foldl perform s requests) association_id dto
           = (Inl NotFound, foldl perform s requests)
       \<and> delete_entity_association (foldl perform s requests) association_id
           = (Inl NotFound, foldl perform s requests)
       \<and> soft_delete_entity_association (foldl perform s requests) association_id
           = (Inl NotFound, foldl perform s requests))
   \<and> (soft_delete_entity_association s association_id = (Inr (), s')
     \<longrightarrow> soft_delete_entity_association s' association_id = (Inl NotFound, s')
       \<and> delete_entity_association s' association_id = (Inl NotFound, s'))"
proof (intro conjI impI)
  assume "find (\<lambda>a. Assoc_Id a = association_id) (EntityAssociations s) = Some a \<and> Deleted a"
  then have later: "find (\<lambda>a. Assoc_Id a = association_id)
                      (EntityAssociations (foldl perform s requests)) = Some a"
    and deleted: "Deleted a"
    by (simp_all add: foldl_perform_keeps_deleted)
  from later show "find (\<lambda>a. Assoc_Id a = association_id)
                      (EntityAssociations (foldl perform s requests)) = Some a" .
  from deleted_operations_fail [OF later deleted]
  show "get_entity_association_by_id (foldl perform s requests) association_id = Inl NotFound"
   and "update_entity_association (foldl perform s requests) association_id dto
           = (Inl NotFound, foldl perform s requests)"
   and "delete_entity_association (foldl perform s requests) association_id
           = (Inl NotFound, foldl perform s requests)"
   and "soft_delete_entity_association (foldl perform s requests) association_id
           = (Inl NotFound, foldl perform s requests)"
    by simp_all
next
  assume "soft_delete_entity_association s association_id = (Inr (), s')"
  then obtain old where
    marked: "find (\<lambda>a. Assoc_Id a = association_id) (EntityAssociations s')
               = Some (old\<lparr> Deleted := True \<rparr>)"
    by (rule soft_delete_marks)
  have flag: "Deleted (old\<lparr> Deleted := True \<rparr>)" by simp
  from deleted_operations_fail [OF marked flag]
  show "soft_delete_entity_association s' association_id = (Inl NotFound, s')"
   and "delete_entity_association s' association_id = (Inl NotFound, s')"
    by simp_all
qed

text \<open>
  A soft-deleted association 1 survives an update, a hard delete, a soft delete and the
  creation of a new association of the same pair; and soft-deleting association 1 twice
  fails the second time.
\<close>

theorem deleted_association_not_found_witness:
  "delete_entity_association
      (foldl perform (ex_with [(ex_row 1 20 ''contains'' None)\<lparr> Deleted := True \<rparr>])
         [Update 1 no_change, Delete 1, SoftDelete 1, Create (ex_create 20 ''contains'' None)]) 1
     = (Inl NotFound,
        foldl perform (ex_with [(ex_row 1 20 ''contains'' None)\<lparr> Deleted := True \<rparr>])
         [Update 1 no_change, Delete 1, SoftDelete 1, Create (ex_create 20 ''contains'' None)])
   \<and> find (\<lambda>a. Assoc_Id a = 1)
        (EntityAssociations
          (foldl perform (ex_with [(ex_row 1 20 ''contains'' None)\<lparr> Deleted := True \<rparr>])
            [Update 1 no_change, Delete 1, SoftDelete 1, Create (ex_create 20 ''contains'' None)]))
     = Some ((ex_row 1 20 ''contains'' None)\<lparr> Deleted := True \<rparr>)
   \<and> soft_delete_entity_association (ex_with [ex_row 1 20 ''contains'' None]) 1
     = (Inr (), ex_with [(ex_row 1 20 ''contains'' None)\<lparr> Deleted := True \<rparr>])
   \<and> soft_delete_entity_association
        (ex_with [(ex_row 1 20 ''contains'' None)\<lparr> Deleted := True \<rparr>]) 1
     = (Inl NotFound, ex_with [(ex_row 1 20 ''contains'' None)\<lparr> Deleted := True \<rparr>])"
proof -
  let ?d = "(ex_row 1 20 ''contains'' None)\<lparr> Deleted := True \<rparr>"
  have flagged: "find (\<lambda>a. Assoc_Id a = 1) (EntityAssociations (ex_with [?d])) = Some ?d
                 \<and> Deleted ?d"
    by (simp add: ex_row_def)
  have soft: "soft_delete_entity_association (ex_with [ex_row 1 20 ''contains'' None]) 1
     = (Inr (), ex_with [?d])"
    by (simp add: soft_delete_entity_association_def get_entity_association_by_id_def
          store_row_def ex_with_def ex_row_def)
  have later: "find (\<lambda>a. Assoc_Id a = 1)
        (EntityAssociations
          (foldl perform (ex_with [?d])
            [Update 1 no_change, Delete 1, SoftDelete 1, Create (ex_create 20 ''contains'' None)]))
       = Some ?d
     \<and> delete_entity_association
        (foldl perform (ex_with [?d])
          [Update 1 no_change, Delete 1, SoftDelete 1, Create (ex_create 20 ''contains'' None)]) 1
       = (Inl NotFound,
          foldl perform (ex_with [?d])
           [Update 1 no_change, Delete 1, SoftDelete 1, Create (ex_create 20 ''contains'' None)])"
    using flagged
      deleted_association_not_found
        [where association_id = 1 and s = "ex_with [?d]" and a = ?d and dto = no_change
           and requests = "[Update 1 no_change, Delete 1, SoftDelete 1,
                            Create (ex_create 20 ''contains'' None)]"]
    by blast
  have again: "soft_delete_entity_association (ex_with [?d]) 1 = (Inl NotFound, ex_with [?d])"
    using soft
      deleted_association_not_found
        [where association_id = 1 and s = "ex_with [ex_row 1 20 ''contains'' None]"
           and s' = "ex_with [?d]"]
    by blast
  from later again soft show ?thesis by blast
qed

text \<open>
  C5. After \<^verbatim>\<open>soft_delete_entity_association\<close> has succeeded for an id, the row of that id
  is still in the table, as it was but with the \<^verbatim>\<open>Deleted\<close> flag set, and the table has as
  many rows as before; reading the association by id fails with \<open>NotFound\<close>; and no
  listing of the associations of a parent entity, with or without a scope, contains an
  association of that id.
\<close>

theorem soft_delete_excludes:
  assumes "soft_delete_entity_association s association_id = (Inr (), s')"
  shows "\<exists>old. get_entity_association_by_id s association_id = Inr old
     \<and> find (\<lambda>a. Assoc_Id a = association_id) (EntityAssociations s')
         = Some (old\<lparr> Deleted := True \<rparr>)
     \<and> length (EntityAssociations s') = length (EntityAssociations s)
     \<and> get_entity_association_by_id s' association_id = Inl NotFound
     \<and> (\<forall>parent_entity_id scope listed.
           get_entity_associations_by_parent_entity_id s' parent_entity_id scope = Inr listed
           \<longrightarrow> (\<forall>a \<in> set listed. Assoc_Id a \<noteq> association_id))"
proof -
  from assms obtain old where
      old: "get_entity_association_by_id s association_id = Inr old"
    and s': "s' = store_row s (old\<lparr> Deleted := True \<rparr>)"
    by (rule soft_delete_success)
  from assms obtain old' where
      "get_entity_association_by_id s association_id = Inr old'"
    and "find (\<lambda>a. Assoc_Id a = association_id) (EntityAssociations s')
           = Some (old'\<lparr> Deleted := True \<rparr>)"
    by (rule soft_delete_marks)
  with old have marked: "find (\<lambda>a. Assoc_Id a = association_id) (EntityAssociations s')
           = Some (old\<lparr> Deleted := True \<rparr>)"
    by simp
  have size: "length (EntityAssociations s') = length (EntityAssociations s)"
    by (simp add: s')
  have gone: "get_entity_association_by_id s' association_id = Inl NotFound"
    using marked by (simp add: get_deleted_not_found)
  have id: "Assoc_Id old = association_id"
    by (rule get_association_id [OF old])
  have all_deleted: "\<forall>a \<in> set (EntityAssociations s'). Assoc_Id a = association_id \<longrightarrow> Deleted a"
    by (auto simp: s' id)
  have listing: "\<forall>parent_entity_id scope listed.
           get_entity_associations_by_parent_entity_id s' parent_entity_id scope = Inr listed
           \<longrightarrow> (\<forall>a \<in> set listed. Assoc_Id a \<noteq> association_id)"
    using all_deleted
    by (auto simp: get_entity_associations_by_parent_entity_id_def from_orm_def Let_def
             split: sum.splits if_splits)
  from old marked size gone listing show ?thesis by blast
qed

text \<open>
  Association 1 is listed under its parent entity 10 before the soft delete and not
  after it.
\<close>

theorem soft_delete_excludes_witness:
  "get_entity_associations_by_parent_entity_id (ex_with [ex_row 1 20 ''contains'' None]) 10 None
     = Inr [ex_row 1 20 ''contains'' None]
   \<and> soft_delete_entity_association (ex_with [ex_row 1 20 ''contains'' None]) 1
     = (Inr (), ex_with [(ex_row 1 20 ''contains'' None)\<lparr> Deleted := True \<rparr>])
   \<and> get_entity_association_by_id
        (ex_with [(ex_row 1 20 ''contains'' None)\<lparr> Deleted := True \<rparr>]) 1 = Inl NotFound
   \<and> get_entity_associations_by_parent_entity_id
        (ex_with [(ex_row 1 20 ''contains'' None)\<lparr> Deleted := True \<rparr>]) 10 None = Inr []
   \<and> EntityAssociations (ex_with [(ex_row 1 20 ''contains'' None)\<lparr> Deleted := True \<rparr>])
     = [(ex_row 1 20 ''contains'' None)\<lparr> Deleted := True \<rparr>]"
proof -
  let ?d = "(ex_row 1 20 ''contains'' None)\<lparr> Deleted := True \<rparr>"
  have before: "get_entity_associations_by_parent_entity_id
                  (ex_with [ex_row 1 20 ''contains'' None]) 10 None
                = Inr [ex_row 1 20 ''contains'' None]"
    by (simp add: get_entity_associations_by_parent_entity_id_def check_entity_by_id_def
          from_orm_def ex_defs)
  have after: "get_entity_associations_by_parent_entity_id (ex_with [?d]) 10 None = Inr []"
    by (simp add: get_entity_associations_by_parent_entity_id_def check_entity_by_id_def
          from_orm_def ex_defs)
  have soft: "soft_delete_entity_association (ex_with [ex_row 1 20 ''contains'' None]) 1
     = (Inr (), ex_with [?d])"
    by (simp add: soft_delete_entity_association_def get_entity_association_by_id_def
          store_row_def ex_with_def ex_row_def)
  from soft_delete_excludes [OF soft]
  have "get_entity_association_by_id (ex_with [?d]) 1 = Inl NotFound"
    by blast
  with before after soft show ?thesis by simp
qed

subsection \<open>The listing of an extension data model\<close>

text \<open>
  C7. For a data model that resolves and whose type is \<open>OrgLIF\<close> or \<open>PartnerLIF\<close>,
  \<^verbatim>\<open>get_entity_associations_by_data_model_id\<close> returns exactly the rows of the association
  table that are not deleted, whose parent and whose child entity id are each the
  included element of an inclusion of that data model that is not deleted and has
  element type \<open>Entity\<close>, and whose scope is that data model or null. So an association
  between included entities is listed, and one with an endpoint that is not included is
  not, even though it can be read by id.
\<close>

theorem extension_model_listing:
  assumes model: "check_datamodel_by_id s data_model_id = Inr data_model"
      and extension: "DataModel_Type data_model = OrgLIF \<or> DataModel_Type data_model = PartnerLIF"
  shows "get_entity_associations_by_data_model_id s data_model_id =
           Inr (filter
                  (\<lambda>a. Deleted a = False
                     \<and> (\<exists>inc \<in> set (ExtInclusions s).
                           ExtDataModelId inc = data_model_id \<and> ElementType inc = ''Entity''
                           \<and> Inclusion_Deleted inc = False
                           \<and> IncludedElementId inc = ParentEntityId a)
                     \<and> (\<exists>inc \<in> set (ExtInclusions s).
                           ExtDataModelId inc = data_model_id \<and> ElementType inc = ''Entity''
                           \<and> Inclusion_Deleted inc = False
                           \<and> IncludedElementId inc = ChildEntityId a)
                     \<and> (ExtendedByDataModelId a = Some data_model_id
                          \<or> ExtendedByDataModelId a = None))
                  (EntityAssociations s))"
proof -
  have member: "\<And>x. x \<in> set (included_entity_ids s data_model_id) \<longleftrightarrow>
          (\<exists>inc \<in> set (ExtInclusions s).
              ExtDataModelId inc = data_model_id \<and> ElementType inc = ''Entity''
              \<and> Inclusion_Deleted inc = False \<and> IncludedElementId inc = x)"
    by (auto simp: included_entity_ids_def)
  have "get_entity_associations_by_data_model_id s data_model_id =
          Inr (filter (\<lambda>a. ParentEntityId a \<in> set (included_entity_ids s data_model_id)
                          \<and> ChildEntityId a \<in> set (included_entity_ids s data_model_id)
                          \<and> Deleted a = False
                          \<and> (ExtendedByDataModelId a = Some data_model_id
                               \<or> ExtendedByDataModelId a = None))
                      (EntityAssociations s))"
    using model extension
    by (auto simp: get_entity_associations_by_data_model_id_def map_from_orm Let_def)
  also have "\<dots> = Inr (filter
                  (\<lambda>a. Deleted a = False
                     \<and> (\<exists>inc \<in> set (ExtInclusions s).
                           ExtDataModelId inc = data_model_id \<and> ElementType inc = ''Entity''
                           \<and> Inclusion_Deleted inc = False
                           \<and> IncludedElementId inc = ParentEntityId a)
                     \<and> (\<exists>inc \<in> set (ExtInclusions s).
                           ExtDataModelId inc = data_model_id \<and> ElementType inc = ''Entity''
                           \<and> Inclusion_Deleted inc = False
                           \<and> IncludedElementId inc = ChildEntityId a)
                     \<and> (ExtendedByDataModelId a = Some data_model_id
                          \<or> ExtendedByDataModelId a = None))
                  (EntityAssociations s))"
    unfolding member by (simp add: conj_ac cong: filter_cong)
  finally show ?thesis .
qed

text \<open>
  The scenario of the specification: model 99 includes entities 10 and 20 but not entity
  30. The association of 10 and 20 is listed; the association of 10 and 30 is not, and
  can be read by id.
\<close>

theorem extension_model_listing_witness:
  "get_entity_associations_by_data_model_id
      (ex_with [ex_row 1 20 ''contains'' None, ex_row 2 30 ''references'' None]) 99
     = Inr [ex_row 1 20 ''contains'' None]
   \<and> get_entity_association_by_id
      (ex_with [ex_row 1 20 ''contains'' None, ex_row 2 30 ''references'' None]) 2
     = Inr (ex_row 2 30 ''references'' None)"
proof -
  let ?s = "ex_with [ex_row 1 20 ''contains'' None, ex_row 2 30 ''references'' None]"
  have model: "check_datamodel_by_id ?s 99 = Inr (ex_data_models ! 1)"
    by (simp add: check_datamodel_by_id_def ex_defs)
  have extension: "DataModel_Type (ex_data_models ! 1) = OrgLIF
                   \<or> DataModel_Type (ex_data_models ! 1) = PartnerLIF"
    by (simp add: ex_data_models_def)
  have "get_entity_associations_by_data_model_id ?s 99 = Inr [ex_row 1 20 ''contains'' None]"
    using extension_model_listing [OF model extension]
    by (simp add: ex_defs)
  moreover have "get_entity_association_by_id ?s 2 = Inr (ex_row 2 30 ''references'' None)"
    by (simp add: get_entity_association_by_id_def ex_row_def)
  ultimately show ?thesis by simp
qed

end
